theory Spec2Isabelle
  imports Complex_Main "HOL-Library.Word"
begin

section \<open>Python values\<close>

text \<open>
  The handler of \<^verbatim>\<open>src/lambda_function.py\<close> receives the event as a Python object
  built from JSON, and produces Python objects built the same way. A Python \<^verbatim>\<open>str\<close> is
  a sequence of code points, so it is a list of naturals here (slices and \<^verbatim>\<open>len\<close> count
  code points, and U+FFFD, which the permissive UTF-8 decoder produces, has to exist);
  \<^verbatim>\<open>bytes\<close> is a list of 8-bit words. A \<^verbatim>\<open>dict\<close> keeps its insertion order, so it is an
  association list, read with \<open>map_of\<close>.

  A \<^verbatim>\<open>float\<close> is held as a decimal literal that denotes it. The handler never computes
  with a float: it reads one from JSON and prints one into JSON. Reading keeps the literal
  as it stands in the input; Python would print the shortest literal of the nearest double
  instead (it reads \<^verbatim>\<open>1.50\<close> and prints \<^verbatim>\<open>1.5\<close>). That normalisation is floating point
  and is left out. The two floats the handler writes itself, \<^verbatim>\<open>0.0\<close> and \<^verbatim>\<open>0.9\<close>, are held
  in the form Python prints.
\<close>

type_synonym pystr = "nat list"
type_synonym bytes = "8 word list"

abbreviation ord :: "char \<Rightarrow> nat" where
  "ord c \<equiv> of_char c"

definition u :: "string \<Rightarrow> pystr" where
  "u s = map ord s"

datatype pyval =
    PyNone
  | PyBool bool
  | PyInt int
  | PyFloat pystr
  | PyStr pystr
  | PyList "pyval list"
  | PyDict "(pystr \<times> pyval) list"

text \<open>\<^verbatim>\<open>type(v).__name__\<close>, as it appears in the message of an AttributeError.\<close>

fun type_name :: "pyval \<Rightarrow> pystr" where
  "type_name PyNone = u ''NoneType''"
| "type_name (PyBool b) = u ''bool''"
| "type_name (PyInt i) = u ''int''"
| "type_name (PyFloat f) = u ''float''"
| "type_name (PyStr s) = u ''str''"
| "type_name (PyList xs) = u ''list''"
| "type_name (PyDict kvs) = u ''dict''"

text \<open>
  An exception is its class and the text \<^verbatim>\<open>str(e)\<close> gives. Every class here derives
  from \<^verbatim>\<open>Exception\<close>, so \<^verbatim>\<open>except Exception\<close> catches each of them, and
  \<^verbatim>\<open>except json.JSONDecodeError\<close> catches the first alone. A function that can raise
  returns \<open>exn + 'a\<close>, with \<open>Inl\<close> for the exception.
\<close>

datatype exc_class =
    JSONDecodeError
  | BinasciiError
  | ValueError
  | UnicodeEncodeError
  | AttributeError
  | RecursionError
  | OtherError pystr

datatype exn = Exn (exc_class: exc_class) (str_exn: pystr)

subsection \<open>\<^verbatim>\<open>str.strip\<close>, slices, \<^verbatim>\<open>str(int)\<close>\<close>

text \<open>
  \<^verbatim>\<open>str.strip()\<close> removes the code points for which \<^verbatim>\<open>str.isspace\<close> holds from both ends.
\<close>

definition isspace :: "nat \<Rightarrow> bool" where
  "isspace c =
     ((0x09 \<le> c \<and> c \<le> 0x0D) \<or> (0x1C \<le> c \<and> c \<le> 0x20) \<or> c = 0x85 \<or> c = 0xA0
      \<or> c = 0x1680 \<or> (0x2000 \<le> c \<and> c \<le> 0x200A) \<or> c = 0x2028 \<or> c = 0x2029
      \<or> c = 0x202F \<or> c = 0x205F \<or> c = 0x3000)"

definition strip :: "pystr \<Rightarrow> pystr" where
  "strip s = rev (dropWhile isspace (rev (dropWhile isspace s)))"

function digits :: "nat \<Rightarrow> pystr" where
  "digits n = (if n < 10 then [48 + n] else digits (n div 10) @ [48 + n mod 10])"
  by pat_completeness auto
termination
  by (relation "measure (\<lambda>n. n)") auto

declare digits.simps [simp del]

definition str_int :: "int \<Rightarrow> pystr" where
  "str_int i = (if i < 0 then ord CHR ''-'' # digits (nat (- i)) else digits (nat i))"

text \<open>\<^verbatim>\<open>int(x)\<close> of a number truncates toward zero.\<close>

definition py_int :: "rat \<Rightarrow> int" where
  "py_int x = (if 0 \<le> x then \<lfloor>x\<rfloor> else \<lceil>x\<rceil>)"

subsection \<open>UTF-8\<close>

text \<open>
  \<^verbatim>\<open>bytes.decode("utf-8", errors="replace")\<close>, after CPython's decoder: a byte that cannot
  start a sequence is replaced by U+FFFD alone; a sequence broken by a byte that cannot
  continue it is replaced, up to that byte, by one U+FFFD, and decoding resumes at the
  byte; a sequence cut off by the end of the data is replaced by one U+FFFD. Overlong
  forms, surrogates and code points past U+10FFFF are refused at the second byte. The
  function is total: with \<^verbatim>\<open>errors="replace"\<close> the decoder does not raise.
\<close>

definition is_cont :: "nat \<Rightarrow> bool" where
  "is_cont b = (0x80 \<le> b \<and> b < 0xC0)"

fun utf8_points :: "nat list \<Rightarrow> pystr" where
  "utf8_points [] = []"
| "utf8_points (b # bs) =
     (if b < 0x80 then b # utf8_points bs
      else if b < 0xC2 then 0xFFFD # utf8_points bs
      else if b < 0xE0 then
        (case bs of
           [] \<Rightarrow> [0xFFFD]
         | c # cs \<Rightarrow>
             if is_cont c then ((b - 0xC0) * 64 + (c - 0x80)) # utf8_points cs
             else 0xFFFD # utf8_points bs)
      else if b < 0xF0 then
        (case bs of
           [] \<Rightarrow> [0xFFFD]
         | c # cs \<Rightarrow>
             if \<not> is_cont c \<or> (b = 0xE0 \<and> c < 0xA0) \<or> (b = 0xED \<and> 0xA0 \<le> c)
             then 0xFFFD # utf8_points bs
             else
               (case cs of
                  [] \<Rightarrow> [0xFFFD]
                | d # ds \<Rightarrow>
                    if is_cont d
                    then ((b - 0xE0) * 4096 + (c - 0x80) * 64 + (d - 0x80)) # utf8_points ds
                    else 0xFFFD # utf8_points cs))
      else if b < 0xF5 then
        (case bs of
           [] \<Rightarrow> [0xFFFD]
         | c # cs \<Rightarrow>
             if \<not> is_cont c \<or> (b = 0xF0 \<and> c < 0x90) \<or> (b = 0xF4 \<and> 0x90 \<le> c)
             then 0xFFFD # utf8_points bs
             else
               (case cs of
                  [] \<Rightarrow> [0xFFFD]
                | d # ds \<Rightarrow>
                    if \<not> is_cont d then 0xFFFD # utf8_points cs
                    else
                      (case ds of
                         [] \<Rightarrow> [0xFFFD]
                       | e # es \<Rightarrow>
                           if is_cont e
                           then ((b - 0xF0) * 262144 + (c - 0x80) * 4096 + (d - 0x80) * 64
                                   + (e - 0x80)) # utf8_points es
                           else 0xFFFD # utf8_points ds)))
      else 0xFFFD # utf8_points bs)"

definition utf8_decode_replace :: "bytes \<Rightarrow> pystr" where
  "utf8_decode_replace bs = utf8_points (map unat bs)"

text \<open>
  \<^verbatim>\<open>str.encode("utf-8")\<close>: strict, so a surrogate code point raises UnicodeEncodeError.
\<close>

definition utf8_bytes :: "nat \<Rightarrow> nat list" where
  "utf8_bytes c =
     (if c < 0x80 then [c]
      else if c < 0x800 then [0xC0 + c div 64, 0x80 + c mod 64]
      else if c < 0x10000 then [0xE0 + c div 4096, 0x80 + c div 64 mod 64, 0x80 + c mod 64]
      else [0xF0 + c div 262144, 0x80 + c div 4096 mod 64, 0x80 + c div 64 mod 64,
            0x80 + c mod 64])"

definition is_surrogate :: "nat \<Rightarrow> bool" where
  "is_surrogate c = (0xD800 \<le> c \<and> c \<le> 0xDFFF)"

definition utf8_encode :: "pystr \<Rightarrow> exn + bytes" where
  "utf8_encode s =
     (if list_ex is_surrogate s
      then Inl (Exn UnicodeEncodeError (u ''surrogates not allowed''))
      else Inr (map of_nat (concat (map utf8_bytes s))))"

subsection \<open>\<^verbatim>\<open>base64.b64decode\<close>\<close>

text \<open>
  \<^verbatim>\<open>base64.b64decode(s)\<close> of a \<^verbatim>\<open>str\<close>, with its default \<^verbatim>\<open>validate=False\<close>: the string
  is encoded as ASCII first (ValueError when it holds a code point past 127), then
  \<^verbatim>\<open>binascii.a2b_base64\<close> reads it in its permissive mode, as in CPython 3.11: a character
  outside the alphabet is skipped; a pad that completes a group of four ends the input,
  whatever follows; a group left incomplete at the end raises \<^verbatim>\<open>binascii.Error\<close>. The
  arguments of the loop are the variables of the C loop: \<open>quad_pos\<close>, \<open>leftchar\<close>,
  \<open>pads\<close> and the output so far.
\<close>

definition table_a2b_base64 :: "nat \<Rightarrow> nat option" where
  "table_a2b_base64 c =
     (if ord CHR ''A'' \<le> c \<and> c \<le> ord CHR ''Z'' then Some (c - 65)
      else if ord CHR ''a'' \<le> c \<and> c \<le> ord CHR ''z'' then Some (c - 71)
      else if ord CHR ''0'' \<le> c \<and> c \<le> ord CHR ''9'' then Some (c + 4)
      else if c = ord CHR ''+'' then Some 62
      else if c = ord CHR ''/'' then Some 63
      else None)"

fun a2b_base64 :: "pystr \<Rightarrow> nat \<Rightarrow> nat \<Rightarrow> nat \<Rightarrow> nat list \<Rightarrow> exn + nat list" where
  "a2b_base64 [] quad_pos leftchar pads out =
     (if quad_pos = 0 then Inr out
      else if quad_pos = 1
      then Inl (Exn BinasciiError
             (u ''Invalid base64-encoded string: number of data characters cannot be 1 more than a multiple of 4''))
      else Inl (Exn BinasciiError (u ''Incorrect padding'')))"
| "a2b_base64 (c # cs) quad_pos leftchar pads out =
     (if c = ord CHR ''='' then
        (if 2 \<le> quad_pos \<and> 4 \<le> quad_pos + (pads + 1) then Inr out
         else a2b_base64 cs quad_pos leftchar (if 2 \<le> quad_pos then pads + 1 else pads) out)
      else
        (case table_a2b_base64 c of
           None \<Rightarrow> a2b_base64 cs quad_pos leftchar pads out
         | Some v \<Rightarrow>
             if quad_pos = 0 then a2b_base64 cs 1 v 0 out
             else if quad_pos = 1
             then a2b_base64 cs 2 (v mod 16) 0 (out @ [leftchar * 4 + v div 16])
             else if quad_pos = 2
             then a2b_base64 cs 3 (v mod 4) 0 (out @ [leftchar * 16 + v div 4])
             else a2b_base64 cs 0 0 0 (out @ [leftchar * 64 + v])))"

definition b64decode :: "pystr \<Rightarrow> exn + bytes" where
  "b64decode s =
     (if list_ex (\<lambda>c. 128 \<le> c) s
      then Inl (Exn ValueError (u ''string argument should contain only ASCII characters''))
      else
        (case a2b_base64 s 0 0 0 [] of
           Inl e \<Rightarrow> Inl e
         | Inr out \<Rightarrow> Inr (map of_nat out)))"

subsection \<open>\<^verbatim>\<open>json.loads\<close>\<close>

text \<open>
  \<^verbatim>\<open>json.loads(s)\<close> of a \<^verbatim>\<open>str\<close>, after the scanner of CPython's \<^verbatim>\<open>json\<close> package
  (\<^verbatim>\<open>scanstring\<close>, \<^verbatim>\<open>NUMBER_RE\<close>, \<^verbatim>\<open>JSONObject\<close>, \<^verbatim>\<open>JSONArray\<close>, \<^verbatim>\<open>scan_once\<close>,
  \<^verbatim>\<open>raw_decode\<close>). The functions take the rest of the input where the Python takes the
  string and an index. A malformed input raises JSONDecodeError; the handler discards the
  exception wherever it catches it, so the message is kept in short, without its position.

  \<open>scan_once\<close>, \<open>array_items\<close> and \<open>object_items\<close> call each other, so they carry
  fuel; \<open>json_loads\<close> gives them more than they use on any input (\<open>json_loads_raises\<close>
  below). The interpreter's own recursion limit is not modelled.
\<close>

definition decode_error :: "string \<Rightarrow> exn" where
  "decode_error m = Exn JSONDecodeError (u m)"

definition is_ws :: "nat \<Rightarrow> bool" where
  "is_ws c = (c = 0x20 \<or> c = 0x09 \<or> c = 0x0A \<or> c = 0x0D)"

definition skip_ws :: "pystr \<Rightarrow> pystr" where
  "skip_ws s = dropWhile is_ws s"

definition is_digit :: "nat \<Rightarrow> bool" where
  "is_digit c = (ord CHR ''0'' \<le> c \<and> c \<le> ord CHR ''9'')"

definition hex_value :: "nat \<Rightarrow> nat option" where
  "hex_value c =
     (if ord CHR ''0'' \<le> c \<and> c \<le> ord CHR ''9'' then Some (c - 48)
      else if ord CHR ''a'' \<le> c \<and> c \<le> ord CHR ''f'' then Some (c - 87)
      else if ord CHR ''A'' \<le> c \<and> c \<le> ord CHR ''F'' then Some (c - 55)
      else None)"

text \<open>The four hexadecimal digits of a \<^verbatim>\<open>\uXXXX\<close> escape, at the head of the input.\<close>

definition decode_uXXXX :: "pystr \<Rightarrow> nat option" where
  "decode_uXXXX s =
     (case map hex_value (take 4 s) of
        [Some a, Some b, Some c, Some d] \<Rightarrow> Some (((a * 16 + b) * 16 + c) * 16 + d)
      | _ \<Rightarrow> None)"

text \<open>The one-letter escapes (\<^verbatim>\<open>BACKSLASH\<close> in \<^verbatim>\<open>json.decoder\<close>); 92 is the backslash.\<close>

definition backslash_char :: "nat \<Rightarrow> nat option" where
  \<open>backslash_char c =
     (if c = ord CHR ''"'' then Some (ord CHR ''"'')
      else if c = 92 then Some 92
      else if c = ord CHR ''/'' then Some (ord CHR ''/'')
      else if c = ord CHR ''b'' then Some 0x08
      else if c = ord CHR ''f'' then Some 0x0C
      else if c = ord CHR ''n'' then Some 0x0A
      else if c = ord CHR ''r'' then Some 0x0D
      else if c = ord CHR ''t'' then Some 0x09
      else None)\<close>

text \<open>
  \<open>scanstring acc s\<close>: \<open>s\<close> starts after the opening quote, \<open>acc\<close> is the text
  read so far (strict mode: a control character inside a string is an error). A high
  surrogate escape followed by a low surrogate escape is one code point; a lone surrogate
  stays in the string.
\<close>

fun scanstring :: "pystr \<Rightarrow> pystr \<Rightarrow> exn + (pystr \<times> pystr)" where
  "scanstring acc [] = Inl (decode_error ''Unterminated string starting at'')"
| \<open>scanstring acc (c # cs) =
     (if c = ord CHR ''"'' then Inr (acc, cs)
      else if c = 92 then
        (case cs of
           [] \<Rightarrow> Inl (decode_error ''Unterminated string starting at'')
         | esc # es \<Rightarrow>
             if esc = ord CHR ''u'' then
               (case decode_uXXXX es of
                  None \<Rightarrow> Inl (decode_error ''Invalid uXXXX escape'')
                | Some uni \<Rightarrow>
                    if 0xD800 \<le> uni \<and> uni \<le> 0xDBFF \<and> take 2 (drop 4 es) = [92, ord CHR ''u'']
                    then
                      (case decode_uXXXX (drop 6 es) of
                         None \<Rightarrow> Inl (decode_error ''Invalid uXXXX escape'')
                       | Some uni2 \<Rightarrow>
                           if 0xDC00 \<le> uni2 \<and> uni2 \<le> 0xDFFF
                           then scanstring
                                  (acc @ [0x10000 + ((uni - 0xD800) * 1024 + (uni2 - 0xDC00))])
                                  (drop 10 es)
                           else scanstring (acc @ [uni]) (drop 4 es))
                    else scanstring (acc @ [uni]) (drop 4 es))
             else
               (case backslash_char esc of
                  None \<Rightarrow> Inl (decode_error ''Invalid escape'')
                | Some ch \<Rightarrow> scanstring (acc @ [ch]) es))
      else if c < 0x20 then Inl (decode_error ''Invalid control character at'')
      else scanstring (acc @ [c]) cs)\<close>

text \<open>
  \<^verbatim>\<open>NUMBER_RE\<close>: an optional minus, then \<^verbatim>\<open>0\<close> or a digit string that does not start
  with \<^verbatim>\<open>0\<close>, then an optional fraction, then an optional exponent. With neither
  fraction nor exponent the number is an \<^verbatim>\<open>int\<close>, otherwise a \<^verbatim>\<open>float\<close>.
\<close>

definition int_of_digits :: "pystr \<Rightarrow> int" where
  "int_of_digits ds = foldl (\<lambda>a d. a * 10 + int (d - 48)) 0 ds"

text \<open>\<^verbatim>\<open>int(integer)\<close> of the literal the first group matched.\<close>

definition int_of_literal :: "pystr \<Rightarrow> int" where
  "int_of_literal l =
     (case l of
        [] \<Rightarrow> 0
      | c # ds \<Rightarrow> if c = ord CHR ''-'' then - int_of_digits ds else int_of_digits l)"

text \<open>
  The three groups of the expression, each giving what it matched and the rest of the
  input: the integer part has to match, the fraction and the exponent match the empty
  string when they cannot match more.
\<close>

definition match_integer :: "pystr \<Rightarrow> (pystr \<times> pystr) option" where
  "match_integer s =
     (let (sign, s1) =
            (case s of
               [] \<Rightarrow> ([], s)
             | c # cs \<Rightarrow> if c = ord CHR ''-'' then ([c], cs) else ([], s))
      in case s1 of
           [] \<Rightarrow> None
         | d # ds \<Rightarrow>
             if \<not> is_digit d then None
             else if d = ord CHR ''0'' then Some (sign @ [d], ds)
             else Some (sign @ d # takeWhile is_digit ds, dropWhile is_digit ds))"

definition match_frac :: "pystr \<Rightarrow> pystr \<times> pystr" where
  "match_frac s =
     (case s of
        [] \<Rightarrow> ([], s)
      | p # r \<Rightarrow>
          if p = ord CHR ''.'' \<and> takeWhile is_digit r \<noteq> []
          then (p # takeWhile is_digit r, dropWhile is_digit r)
          else ([], s))"

definition match_exp :: "pystr \<Rightarrow> pystr \<times> pystr" where
  "match_exp s =
     (case s of
        [] \<Rightarrow> ([], s)
      | e # r \<Rightarrow>
          if e = ord CHR ''e'' \<or> e = ord CHR ''E'' then
            (let (sg, r') =
                   (case r of
                      [] \<Rightarrow> ([], r)
                    | g # r'' \<Rightarrow>
                        if g = ord CHR ''+'' \<or> g = ord CHR ''-'' then ([g], r'') else ([], r))
             in if takeWhile is_digit r' \<noteq> []
                then (e # sg @ takeWhile is_digit r', dropWhile is_digit r')
                else ([], s))
          else ([], s))"

definition match_number :: "pystr \<Rightarrow> (pyval \<times> pystr) option" where
  "match_number s =
     (case match_integer s of
        None \<Rightarrow> None
      | Some (integer, s2) \<Rightarrow>
          let (frac, s3) = match_frac s2;
              (exp, s4) = match_exp s3
          in if frac = [] \<and> exp = []
             then Some (PyInt (int_of_literal integer), s4)
             else Some (PyFloat (integer @ frac @ exp), s4))"

text \<open>\<^verbatim>\<open>d[k] = v\<close>: a key already there keeps its place and takes the new value.\<close>

fun dict_set :: "pystr \<Rightarrow> pyval \<Rightarrow> (pystr \<times> pyval) list \<Rightarrow> (pystr \<times> pyval) list" where
  "dict_set k v [] = [(k, v)]"
| "dict_set k v ((k', v') # d) = (if k = k' then (k, v) # d else (k', v') # dict_set k v d)"

definition out_of_fuel :: exn where
  "out_of_fuel = Exn RecursionError (u ''out of fuel'')"

fun scan_once :: "nat \<Rightarrow> pystr \<Rightarrow> exn + (pyval \<times> pystr)"
  and array_items :: "nat \<Rightarrow> pyval list \<Rightarrow> pystr \<Rightarrow> exn + (pyval \<times> pystr)"
  and object_items :: "nat \<Rightarrow> (pystr \<times> pyval) list \<Rightarrow> pystr \<Rightarrow> exn + (pyval \<times> pystr)"
where
  "scan_once 0 s = Inl out_of_fuel"
| \<open>scan_once (Suc n) s =
     (case s of
        [] \<Rightarrow> Inl (decode_error ''Expecting value'')
      | c # cs \<Rightarrow>
          if c = ord CHR ''"'' then
            (case scanstring [] cs of
               Inl e \<Rightarrow> Inl e
             | Inr (str, rest) \<Rightarrow> Inr (PyStr str, rest))
          else if c = ord CHR ''{'' then
            (case skip_ws cs of
               [] \<Rightarrow> Inl (decode_error ''Expecting property name enclosed in double quotes'')
             | d # ds \<Rightarrow>
                 if d = ord CHR ''}'' then Inr (PyDict [], ds)
                 else if d = ord CHR ''"'' then object_items n [] ds
                 else Inl (decode_error ''Expecting property name enclosed in double quotes''))
          else if c = ord CHR ''['' then
            (case skip_ws cs of
               [] \<Rightarrow> Inl (decode_error ''Expecting value'')
             | d # ds \<Rightarrow>
                 if d = ord CHR '']'' then Inr (PyList [], ds)
                 else array_items n [] (d # ds))
          else if c = ord CHR ''n'' \<and> take 3 cs = u ''ull'' then Inr (PyNone, drop 3 cs)
          else if c = ord CHR ''t'' \<and> take 3 cs = u ''rue'' then Inr (PyBool True, drop 3 cs)
          else if c = ord CHR ''f'' \<and> take 4 cs = u ''alse'' then Inr (PyBool False, drop 4 cs)
          else
            (case match_number s of
               Some (v, rest) \<Rightarrow> Inr (v, rest)
             | None \<Rightarrow>
                 if c = ord CHR ''N'' \<and> take 2 cs = u ''aN''
                 then Inr (PyFloat (u ''NaN''), drop 2 cs)
                 else if c = ord CHR ''I'' \<and> take 7 cs = u ''nfinity''
                 then Inr (PyFloat (u ''Infinity''), drop 7 cs)
                 else if c = ord CHR ''-'' \<and> take 8 cs = u ''Infinity''
                 then Inr (PyFloat (u ''-Infinity''), drop 8 cs)
                 else Inl (decode_error ''Expecting value'')))\<close>
| "array_items 0 acc s = Inl out_of_fuel"
| \<open>array_items (Suc n) acc s =
     (case scan_once n s of
        Inl e \<Rightarrow> Inl e
      | Inr (v, rest) \<Rightarrow>
          (case skip_ws rest of
             [] \<Rightarrow> Inl (decode_error ''Expecting , delimiter'')
           | d # ds \<Rightarrow>
               if d = ord CHR '']'' then Inr (PyList (acc @ [v]), ds)
               else if d = ord CHR '','' then array_items n (acc @ [v]) (skip_ws ds)
               else Inl (decode_error ''Expecting , delimiter'')))\<close>
| "object_items 0 acc s = Inl out_of_fuel"
| \<open>object_items (Suc n) acc s =
     (case scanstring [] s of
        Inl e \<Rightarrow> Inl e
      | Inr (key, rest) \<Rightarrow>
          (case skip_ws rest of
             [] \<Rightarrow> Inl (decode_error ''Expecting : delimiter'')
           | d # ds \<Rightarrow>
               if d \<noteq> ord CHR '':'' then Inl (decode_error ''Expecting : delimiter'')
               else
                 (case scan_once n (skip_ws ds) of
                    Inl e \<Rightarrow> Inl e
                  | Inr (v, rest2) \<Rightarrow>
                      (case skip_ws rest2 of
                         [] \<Rightarrow> Inl (decode_error ''Expecting , delimiter'')
                       | d2 # ds2 \<Rightarrow>
                           if d2 = ord CHR ''}'' then Inr (PyDict (dict_set key v acc), ds2)
                           else if d2 = ord CHR '','' then
                             (case skip_ws ds2 of
                                [] \<Rightarrow> Inl (decode_error
                                  ''Expecting property name enclosed in double quotes'')
                              | q # qs \<Rightarrow>
                                  if q = ord CHR ''"''
                                  then object_items n (dict_set key v acc) qs
                                  else Inl (decode_error
                                    ''Expecting property name enclosed in double quotes''))
                           else Inl (decode_error ''Expecting , delimiter'')))))\<close>

definition json_loads :: "pystr \<Rightarrow> exn + pyval" where
  "json_loads s =
     (if take 1 s = [0xFEFF] then Inl (decode_error ''Unexpected UTF-8 BOM (decode using utf-8-sig)'')
      else
        (case scan_once (2 * length s + 2) (skip_ws s) of
           Inl e \<Rightarrow> Inl e
         | Inr (obj, rest) \<Rightarrow>
             if skip_ws rest = [] then Inr obj else Inl (decode_error ''Extra data'')))"

subsection \<open>\<^verbatim>\<open>json.dumps\<close>\<close>

text \<open>
  \<^verbatim>\<open>json.dumps(value, ensure_ascii=b)\<close> with its other defaults: the separators are
  \<^verbatim>\<open>", "\<close> and \<^verbatim>\<open>": "\<close>, a dictionary is written in its own order. With
  \<^verbatim>\<open>ensure_ascii\<close> (the default) every code point outside the printable ASCII range is
  written as a \<^verbatim>\<open>\uXXXX\<close> escape, a code point past U+FFFF as a surrogate pair; without it
  only the quote, the backslash and the control characters are escaped.

  \<^verbatim>\<open>json.dumps\<close> raises on an object that is not JSON (TypeError) or that contains itself
  (ValueError). A \<open>pyval\<close> is neither, so \<open>json_dumps\<close> always returns; it has the type
  of a function that can raise so that its callers keep the branches the source has.
\<close>

definition hex_digit :: "nat \<Rightarrow> nat" where
  "hex_digit d = (if d < 10 then 48 + d else 87 + d)"

definition u_escape :: "nat \<Rightarrow> pystr" where
  "u_escape c =
     [92, ord CHR ''u'', hex_digit (c div 4096 mod 16), hex_digit (c div 256 mod 16),
      hex_digit (c div 16 mod 16), hex_digit (c mod 16)]"

definition encode_char :: "bool \<Rightarrow> nat \<Rightarrow> pystr" where
  \<open>encode_char ensure_ascii c =
     (if c = ord CHR ''"'' then [92, ord CHR ''"'']
      else if c = 92 then [92, 92]
      else if c = 0x0A then [92, ord CHR ''n'']
      else if c = 0x0D then [92, ord CHR ''r'']
      else if c = 0x09 then [92, ord CHR ''t'']
      else if c = 0x08 then [92, ord CHR ''b'']
      else if c = 0x0C then [92, ord CHR ''f'']
      else if c < 0x20 then u_escape c
      else if ensure_ascii \<and> 0x7E < c then
        (if c < 0x10000 then u_escape c
         else u_escape (0xD800 + (c - 0x10000) div 1024 mod 1024)
              @ u_escape (0xDC00 + (c - 0x10000) mod 1024))
      else [c])\<close>

definition encode_basestring :: "bool \<Rightarrow> pystr \<Rightarrow> pystr" where
  \<open>encode_basestring ensure_ascii s =
     ord CHR ''"'' # concat (map (encode_char ensure_ascii) s) @ [ord CHR ''"'']\<close>

fun join :: "pystr \<Rightarrow> pystr list \<Rightarrow> pystr" where
  "join sep [] = []"
| "join sep [x] = x"
| "join sep (x # y # ys) = x @ sep @ join sep (y # ys)"

fun iterencode :: "bool \<Rightarrow> pyval \<Rightarrow> pystr"
  and iterencode_list :: "bool \<Rightarrow> pyval list \<Rightarrow> pystr list"
  and iterencode_dict :: "bool \<Rightarrow> (pystr \<times> pyval) list \<Rightarrow> pystr list"
where
  "iterencode a PyNone = u ''null''"
| "iterencode a (PyBool b) = (if b then u ''true'' else u ''false'')"
| "iterencode a (PyInt i) = str_int i"
| "iterencode a (PyFloat f) = f"
| "iterencode a (PyStr s) = encode_basestring a s"
| "iterencode a (PyList xs) = u ''['' @ join (u '', '') (iterencode_list a xs) @ u '']''"
| "iterencode a (PyDict kvs) = u ''{'' @ join (u '', '') (iterencode_dict a kvs) @ u ''}''"
| "iterencode_list a [] = []"
| "iterencode_list a (x # xs) = iterencode a x # iterencode_list a xs"
| "iterencode_dict a [] = []"
| "iterencode_dict a ((k, v) # kvs) =
     (encode_basestring a k @ u '': '' @ iterencode a v) # iterencode_dict a kvs"

definition json_dumps :: "bool \<Rightarrow> pyval \<Rightarrow> exn + pystr" where
  "json_dumps ensure_ascii v = Inr (iterencode ensure_ascii v)"

section \<open>The handler and its collaborators\<close>

text \<open>
  The module holds two clients, \<^verbatim>\<open>runtime\<close> and \<^verbatim>\<open>dynamo\<close>, the endpoint name
  \<^verbatim>\<open>ENDPOINT\<close>, and reads the clock. None of them is in the repository, so they are
  parameters: \<open>invoke_endpoint\<close> gives what \<^verbatim>\<open>runtime.invoke_endpoint(...)\<close> does (it
  raises, or it returns a response whose \<^verbatim>\<open>Body.read()\<close> raises or returns bytes),
  \<open>put_item\<close> what \<^verbatim>\<open>dynamo.put_item(Item=...)\<close> does (it raises or it returns),
  \<open>time\<close> what \<^verbatim>\<open>time.time()\<close> returns. Each may depend on everything that happened
  before, so each takes the trace of the calls made so far; the handler returns the trace
  it leaves behind, and a claim about what was written or forwarded reads it there.
  \<open>str_of\<close> is Python's \<^verbatim>\<open>str()\<close> of an object (its \<^verbatim>\<open>repr\<close>, which depends on the
  Unicode database).
\<close>

record lambda_context =
  aws_request_id :: pystr

record invoke_request =
  EndpointName :: pystr
  ContentType :: pystr
  Accept :: pystr
  Body :: bytes

text \<open>The item written to the table; \<open>id_key\<close> is its key \<^verbatim>\<open>"id"\<close>.\<close>

record log_item =
  id_key :: pystr
  request_id :: pystr
  status :: pystr
  prompt :: pystr
  response :: pystr
  timestamp :: int

datatype effect =
    Time
  | InvokeEndpoint invoke_request
  | PutItem log_item

record env =
  ENDPOINT :: pystr
  time :: "effect list \<Rightarrow> rat"
  invoke_endpoint :: "effect list \<Rightarrow> invoke_request \<Rightarrow> exn + (exn + bytes)"
  put_item :: "effect list \<Rightarrow> log_item \<Rightarrow> exn option"
  str_of :: "pyval \<Rightarrow> pystr"

record http_response =
  statusCode :: int
  headers :: "(pystr \<times> pystr) list"
  body :: pystr

subsection \<open>\<^verbatim>\<open>safe_json\<close>, \<^verbatim>\<open>try_parse_json\<close>, \<^verbatim>\<open>_parse_body\<close>\<close>

definition safe_json :: "env \<Rightarrow> pyval \<Rightarrow> pystr" where
  "safe_json env v =
     (case json_dumps False v of
        Inr s \<Rightarrow> s
      | Inl e \<Rightarrow> str_of env v)"

definition try_parse_json :: "pystr \<Rightarrow> pyval" where
  "try_parse_json s =
     (case json_loads s of
        Inr v \<Rightarrow> v
      | Inl e \<Rightarrow> PyDict [(u ''_raw'', PyStr s)])"

text \<open>
  \<^verbatim>\<open>_parse_body(event)\<close>. The inner \<open>case\<close> is the first \<^verbatim>\<open>if\<close> of the source: it
  gives the new \<^verbatim>\<open>raw\<close>, or \<open>None\<close> where the source returns \<^verbatim>\<open>{}\<close> from its
  \<^verbatim>\<open>except Exception\<close>. \<^verbatim>\<open>is True\<close> holds of the boolean \<^verbatim>\<open>True\<close> alone.
  \<^verbatim>\<open>except json.JSONDecodeError\<close> lets any other exception of \<^verbatim>\<open>json.loads\<close> through.
\<close>

definition parse_body :: "pyval \<Rightarrow> exn + pyval" where
  "parse_body event =
     (case event of
        PyDict kvs \<Rightarrow>
          (case map_of kvs (u ''body'') of
             None \<Rightarrow> Inr event
           | Some raw0 \<Rightarrow>
               (case
                  (case raw0 of
                     PyStr s \<Rightarrow>
                       if map_of kvs (u ''isBase64Encoded'') = Some (PyBool True)
                       then
                         (case b64decode s of
                            Inl e \<Rightarrow> None
                          | Inr decoded \<Rightarrow> Some (PyStr (utf8_decode_replace decoded)))
                       else Some raw0
                   | _ \<Rightarrow> Some raw0)
                of
                  None \<Rightarrow> Inr (PyDict [])
                | Some raw \<Rightarrow>
                    (case raw of
                       PyStr s \<Rightarrow>
                         (case json_loads s of
                            Inr v \<Rightarrow> Inr v
                          | Inl e \<Rightarrow>
                              if exc_class e = JSONDecodeError then Inr (PyDict []) else Inl e)
                     | PyDict d \<Rightarrow> Inr raw
                     | _ \<Rightarrow> Inr (PyDict []))))
      | _ \<Rightarrow> Inr (PyDict []))"

subsection \<open>\<^verbatim>\<open>lambda_handler\<close>\<close>

text \<open>
  \<^verbatim>\<open>body.get(key, default)\<close>: a method of \<^verbatim>\<open>dict\<close>. On a list, a string, a number, a
  boolean or \<^verbatim>\<open>None\<close> the attribute lookup raises AttributeError.
\<close>

definition dict_get :: "pyval \<Rightarrow> pystr \<Rightarrow> pyval \<Rightarrow> exn + pyval" where
  "dict_get d k dflt =
     (case d of
        PyDict kvs \<Rightarrow> Inr (case map_of kvs k of Some v \<Rightarrow> v | None \<Rightarrow> dflt)
      | _ \<Rightarrow>
          Inl (Exn AttributeError
                 ([39] @ type_name d @ [39] @ u '' object has no attribute '' @ [39] @ u ''get''
                  @ [39])))"

definition json_headers :: "(pystr \<times> pystr) list" where
  "json_headers = [(u ''Content-Type'', u ''application/json'')]"

text \<open>The return of the validation branch (status 400).\<close>

definition empty_inputs :: "env \<Rightarrow> pyval \<Rightarrow> exn + http_response" where
  "empty_inputs env event =
     (case json_dumps True
             (PyDict [(u ''error'', PyStr (u ''Empty or missing 'inputs' received by Lambda'')),
                      (u ''raw_event_sample'', PyStr (take 500 (str_of env event)))]) of
        Inl e \<Rightarrow> Inl e
      | Inr b \<Rightarrow> Inr \<lparr>statusCode = 400, headers = json_headers, body = b\<rparr>)"

definition payload :: "pystr \<Rightarrow> pyval" where
  "payload text =
     PyDict [(u ''inputs'', PyStr text),
             (u ''parameters'',
              PyDict [(u ''max_new_tokens'', PyInt 128),
                      (u ''temperature'', PyFloat (u ''0.0'')),
                      (u ''top_p'', PyFloat (u ''0.9'')),
                      (u ''do_sample'', PyBool False),
                      (u ''return_full_text'', PyBool False)])]"

text \<open>
  The body of the \<^verbatim>\<open>try\<close>: every exception raised inside it is returned as \<open>Inl\<close>,
  with the trace at that moment, to the \<^verbatim>\<open>except Exception\<close> clause. The write of the
  success record and the serialisation of the 200 response are inside the \<^verbatim>\<open>try\<close>, as in
  the source.
\<close>

definition try_block ::
  "env \<Rightarrow> effect list \<Rightarrow> pystr \<Rightarrow> pystr \<Rightarrow> (exn + http_response) \<times> effect list" where
  "try_block env tr text item_id =
     (case json_dumps True (payload text) of
        Inl e \<Rightarrow> (Inl e, tr)
      | Inr dumped \<Rightarrow>
          (case utf8_encode dumped of
             Inl e \<Rightarrow> (Inl e, tr)
           | Inr data \<Rightarrow>
               let request = \<lparr>EndpointName = ENDPOINT env,
                              ContentType = u ''application/json'',
                              Accept = u ''application/json'',
                              Body = data\<rparr>;
                   tr1 = tr @ [InvokeEndpoint request]
               in
                 (case invoke_endpoint env tr request of
                    Inl e \<Rightarrow> (Inl e, tr1)
                  | Inr resp \<Rightarrow>
                      (case resp of
                         Inl e \<Rightarrow> (Inl e, tr1)
                       | Inr raw \<Rightarrow>
                           let raw_out = utf8_decode_replace raw;
                               result = try_parse_json raw_out;
                               log_item = \<lparr>id_key = item_id,
                                           request_id = item_id,
                                           status = u ''ok'',
                                           prompt = take 4000 text,
                                           response = safe_json env result,
                                           timestamp = py_int (time env tr1)\<rparr>;
                               tr2 = tr1 @ [Time];
                               tr3 = tr2 @ [PutItem log_item]
                           in
                             (case put_item env tr2 log_item of
                                Some e \<Rightarrow> (Inl e, tr3)
                              | None \<Rightarrow>
                                  (case json_dumps True (PyDict [(u ''result'', result)]) of
                                     Inl e \<Rightarrow> (Inl e, tr3)
                                   | Inr b \<Rightarrow>
                                       (Inr \<lparr>statusCode = 200, headers = json_headers,
                                             body = b\<rparr>, tr3)))))))"

text \<open>
  The \<^verbatim>\<open>except Exception as e\<close> clause: nothing catches what it raises, so a failing
  \<^verbatim>\<open>put_item\<close> here leaves the handler as an exception.
\<close>

definition except_block ::
  "env \<Rightarrow> effect list \<Rightarrow> exn \<Rightarrow> pystr \<Rightarrow> pystr \<Rightarrow> (exn + http_response) \<times> effect list" where
  "except_block env tr e text item_id =
     (let log_item = \<lparr>id_key = item_id,
                      request_id = item_id,
                      status = u ''error'',
                      prompt = take 4000 text,
                      response = safe_json env (PyDict [(u ''invoke_error'', PyStr (str_exn e))]),
                      timestamp = py_int (time env tr)\<rparr>;
          tr1 = tr @ [Time];
          tr2 = tr1 @ [PutItem log_item]
      in
        (case put_item env tr1 log_item of
           Some e' \<Rightarrow> (Inl e', tr2)
         | None \<Rightarrow>
             (case json_dumps True (PyDict [(u ''error'', PyStr (str_exn e))]) of
                Inl e' \<Rightarrow> (Inl e', tr2)
              | Inr b \<Rightarrow> (Inr \<lparr>statusCode = 502, headers = json_headers, body = b\<rparr>, tr2))))"

text \<open>
  \<^verbatim>\<open>lambda_handler(event, context)\<close>, started after the calls of \<open>tr\<close>. The result is
  what the handler returns (\<open>Inr\<close>) or the exception that leaves it (\<open>Inl\<close>), and the
  trace afterwards.
\<close>

definition isinstance_str :: "pyval \<Rightarrow> bool" where
  "isinstance_str v = (case v of PyStr s \<Rightarrow> True | _ \<Rightarrow> False)"

text \<open>The code points of a \<^verbatim>\<open>str\<close> object; it is applied to nothing else.\<close>

definition str_value :: "pyval \<Rightarrow> pystr" where
  "str_value v = (case v of PyStr s \<Rightarrow> s | _ \<Rightarrow> [])"

definition lambda_handler ::
  "env \<Rightarrow> effect list \<Rightarrow> pyval \<Rightarrow> lambda_context \<Rightarrow> (exn + http_response) \<times> effect list" where
  "lambda_handler env tr event context =
     (case parse_body event of
        Inl e \<Rightarrow> (Inl e, tr)
      | Inr parsed \<Rightarrow>
          (case dict_get parsed (u ''inputs'') (PyStr []) of
             Inl e \<Rightarrow> (Inl e, tr)
           | Inr text \<Rightarrow>
               if \<not> isinstance_str text \<or> strip (str_value text) = []
               then (empty_inputs env event, tr)
               else
                 let item_id = str_int (py_int (time env tr * 1000)) @ u ''#''
                                 @ aws_request_id context;
                     tr1 = tr @ [Time]
                 in
                   (case try_block env tr1 (str_value text) item_id of
                      (Inl e, tr2) \<Rightarrow> except_block env tr2 e (str_value text) item_id
                    | (Inr r, tr2) \<Rightarrow> (Inr r, tr2))))"

text \<open>The items written, and the requests forwarded, in a trace.\<close>

fun written :: "effect list \<Rightarrow> log_item list" where
  "written [] = []"
| "written (PutItem i # tr) = i # written tr"
| "written (x # tr) = written tr"

fun forwarded :: "effect list \<Rightarrow> invoke_request list" where
  "forwarded [] = []"
| "forwarded (InvokeEndpoint r # tr) = r # forwarded tr"
| "forwarded (x # tr) = forwarded tr"

section \<open>Example collaborators\<close>

text \<open>
  Five environments for the concrete instances below. In each the clock stands at one
  second and \<^verbatim>\<open>str(event)\<close> is a fixed text. \<open>env_ok\<close>: the endpoint answers
  \<^verbatim>\<open>{"generated_text":"x"}\<close> and the table takes every item. \<open>env_boom\<close>: the endpoint
  raises \<^verbatim>\<open>boom\<close>, the table takes every item. \<open>env_flaky\<close>: the endpoint answers, the
  table refuses the first item it is given and takes the next. \<open>env_down\<close>: the endpoint
  raises \<^verbatim>\<open>boom\<close> and the table refuses every item. \<open>env_refusing\<close>: the endpoint
  answers and the table refuses every item.
\<close>

definition boom :: exn where
  "boom = Exn (OtherError (u ''RuntimeError'')) (u ''boom'')"

definition table_error :: exn where
  "table_error = Exn (OtherError (u ''ClientError'')) (u ''table unavailable'')"

definition env_ok :: env where
  \<open>env_ok =
     \<lparr>ENDPOINT = u ''my-endpoint'',
      time = (\<lambda>tr. 1),
      invoke_endpoint = (\<lambda>tr request. Inr (Inr (map of_nat (u ''{"generated_text":"x"}'')))),
      put_item = (\<lambda>tr item. None),
      str_of = (\<lambda>v. u ''<event>'')\<rparr>\<close>

definition env_boom :: env where
  "env_boom = env_ok\<lparr>invoke_endpoint := (\<lambda>tr request. Inl boom)\<rparr>"

definition env_flaky :: env where
  "env_flaky =
     env_ok\<lparr>put_item := (\<lambda>tr item. if written tr = [] then Some table_error else None)\<rparr>"

definition env_down :: env where
  "env_down = env_boom\<lparr>put_item := (\<lambda>tr item. Some table_error)\<rparr>"

definition env_refusing :: env where
  "env_refusing = env_ok\<lparr>put_item := (\<lambda>tr item. Some table_error)\<rparr>"

definition ctx1 :: lambda_context where
  "ctx1 = \<lparr>aws_request_id = u ''req-1''\<rparr>"

text \<open>
  The direct event \<^verbatim>\<open>{"inputs": "hi"}\<close>, and what a run of the handler on it in these
  environments, from the empty trace, forwards and writes: the request, the record of the
  success path, and the record of the error path with a given \<^verbatim>\<open>response\<close>.
\<close>

definition ev_hi :: pyval where
  "ev_hi = PyDict [(u ''inputs'', PyStr (u ''hi''))]"

definition request_hi :: invoke_request where
  \<open>request_hi =
     \<lparr>EndpointName = u ''my-endpoint'',
      ContentType = u ''application/json'',
      Accept = u ''application/json'',
      Body = map of_nat (u ''{"inputs": "hi", "parameters": {"max_new_tokens": 128, "temperature": 0.0, "top_p": 0.9, "do_sample": false, "return_full_text": false}}'')\<rparr>\<close>

definition ok_item_hi :: log_item where
  \<open>ok_item_hi =
     \<lparr>id_key = u ''1000#req-1'', request_id = u ''1000#req-1'', status = u ''ok'',
      prompt = u ''hi'', response = u ''{"generated_text": "x"}'', timestamp = 1\<rparr>\<close>

definition error_item_hi :: "pystr \<Rightarrow> log_item" where
  "error_item_hi r =
     \<lparr>id_key = u ''1000#req-1'', request_id = u ''1000#req-1'', status = u ''error'',
      prompt = u ''hi'', response = r, timestamp = 1\<rparr>"

section \<open>Facts about the library models\<close>

lemma hex_digit_ascii: "d < 16 \<Longrightarrow> hex_digit d < 128"
  by (simp add: hex_digit_def)

lemma u_escape_ascii: "list_all (\<lambda>c. c < 128) (u_escape c)"
  by (simp add: u_escape_def hex_digit_ascii)

lemma encode_char_ascii: "list_all (\<lambda>c. c < 128) (encode_char True c)"
  by (simp add: encode_char_def u_escape_ascii)

lemma encode_basestring_ascii: "list_all (\<lambda>c. c < 128) (encode_basestring True s)"
  by (induction s) (simp_all add: encode_basestring_def encode_char_ascii)

lemma utf8_bytes_ascii: "list_all (\<lambda>c. c < 128) s \<Longrightarrow> concat (map utf8_bytes s) = s"
  by (induction s) (simp_all add: utf8_bytes_def)

lemma utf8_encode_ascii:
  assumes "list_all (\<lambda>c. c < 128) s"
  shows "utf8_encode s = Inr (map of_nat s)"
proof -
  have "\<not> list_ex is_surrogate s"
    using assms by (induction s) (simp_all add: is_surrogate_def)
  then show ?thesis
    using assms by (simp add: utf8_encode_def utf8_bytes_ascii)
qed

lemma iterencode_payload:
  \<open>iterencode True (payload text) =
     u ''{"inputs": '' @ encode_basestring True text
       @ u '', "parameters": {"max_new_tokens": 128, "temperature": 0.0, "top_p": 0.9, "do_sample": false, "return_full_text": false}}''\<close>
  by (simp add: payload_def u_def str_int_def digits.simps encode_basestring_def encode_char_def)

lemma payload_ascii: "list_all (\<lambda>c. c < 128) (iterencode True (payload text))"
  using encode_basestring_ascii [of "text"] by (simp add: iterencode_payload u_def)

lemma encode_payload:
  "utf8_encode (iterencode True (payload text)) = Inr (map of_nat (iterencode True (payload text)))"
  by (rule utf8_encode_ascii [OF payload_ascii])

section \<open>The handler, branch by branch\<close>

lemma json_dumps_returns: "json_dumps a v = Inr (iterencode a v)"
  by (simp add: json_dumps_def)

lemma safe_json_returns: "safe_json env v = iterencode False v"
  by (simp add: safe_json_def json_dumps_def)

lemma try_block_unfold:
  fixes env tr "text" item_id
  defines "request \<equiv> \<lparr>EndpointName = ENDPOINT env, ContentType = u ''application/json'',
                        Accept = u ''application/json'',
                        Body = map of_nat (iterencode True (payload text))\<rparr>"
  shows "try_block env tr text item_id =
     (case invoke_endpoint env tr request of
        Inl e \<Rightarrow> (Inl e, tr @ [InvokeEndpoint request])
      | Inr (Inl e) \<Rightarrow> (Inl e, tr @ [InvokeEndpoint request])
      | Inr (Inr raw) \<Rightarrow>
          (let item = \<lparr>id_key = item_id, request_id = item_id, status = u ''ok'',
                        prompt = take 4000 text,
                        response = iterencode False (try_parse_json (utf8_decode_replace raw)),
                        timestamp = py_int (time env (tr @ [InvokeEndpoint request]))\<rparr>
           in case put_item env (tr @ [InvokeEndpoint request, Time]) item of
                Some e \<Rightarrow> (Inl e, tr @ [InvokeEndpoint request, Time, PutItem item])
              | None \<Rightarrow>
                  (Inr \<lparr>statusCode = 200, headers = json_headers,
                        body = iterencode True
                                 (PyDict [(u ''result'', try_parse_json (utf8_decode_replace raw))])\<rparr>,
                   tr @ [InvokeEndpoint request, Time, PutItem item])))"
  unfolding try_block_def request_def
  by (simp add: json_dumps_returns safe_json_returns encode_payload Let_def
        split: sum.splits option.splits)

lemma except_block_unfold:
  "except_block env tr e text item_id =
     (let item = \<lparr>id_key = item_id, request_id = item_id, status = u ''error'',
                   prompt = take 4000 text,
                   response = iterencode False (PyDict [(u ''invoke_error'', PyStr (str_exn e))]),
                   timestamp = py_int (time env tr)\<rparr>
      in case put_item env (tr @ [Time]) item of
           Some e' \<Rightarrow> (Inl e', tr @ [Time, PutItem item])
         | None \<Rightarrow>
             (Inr \<lparr>statusCode = 502, headers = json_headers,
                   body = iterencode True (PyDict [(u ''error'', PyStr (str_exn e))])\<rparr>,
              tr @ [Time, PutItem item]))"
  unfolding except_block_def
  by (simp add: json_dumps_returns safe_json_returns Let_def split: option.splits)

lemma handler_valid:
  assumes "parse_body event = Inr parsed"
    and "dict_get parsed (u ''inputs'') (PyStr []) = Inr (PyStr T)"
    and "strip T \<noteq> []"
  shows "lambda_handler env tr event context =
     (case try_block env (tr @ [Time]) T
             (str_int (py_int (time env tr * 1000)) @ u ''#'' @ aws_request_id context) of
        (Inl e, tr2) \<Rightarrow>
          except_block env tr2 e T
            (str_int (py_int (time env tr * 1000)) @ u ''#'' @ aws_request_id context)
      | (Inr r, tr2) \<Rightarrow> (Inr r, tr2))"
  using assms
  by (simp add: lambda_handler_def isinstance_str_def str_value_def Let_def
        split: prod.splits sum.splits)

lemma handler_invalid:
  assumes "parse_body event = Inr parsed"
    and "dict_get parsed (u ''inputs'') (PyStr []) = Inr v"
    and "\<not> isinstance_str v \<or> strip (str_value v) = []"
  shows "lambda_handler env tr event context = (empty_inputs env event, tr)"
  using assms
  by (simp add: lambda_handler_def)

section \<open>Evaluating the library models\<close>

text \<open>
  The fuel of the scanner is a numeral in a concrete call; these equations turn it into
  a successor, so that the simplifier can run the scanner.
\<close>

lemma scan_once_numeral: "scan_once (numeral k) s = scan_once (Suc (pred_numeral k)) s"
  by (simp add: numeral_eq_Suc)
lemma array_items_numeral: "array_items (numeral k) acc s = array_items (Suc (pred_numeral k)) acc s"
  by (simp add: numeral_eq_Suc)
lemma object_items_numeral: "object_items (numeral k) acc s = object_items (Suc (pred_numeral k)) acc s"
  by (simp add: numeral_eq_Suc)
lemmas json_eval = scan_once_numeral array_items_numeral object_items_numeral
  u_def skip_ws_def is_ws_def is_digit_def match_number_def match_integer_def match_frac_def
  match_exp_def int_of_literal_def int_of_digits_def
  decode_uXXXX_def hex_value_def backslash_char_def decode_error_def

lemma u_eq_iff: "(u a = u b) = (a = b)"
  by (simp add: u_def inj_map_eq_map inj_of_char)

lemma json_loads_hello:
  \<open>json_loads (u ''{"inputs": "hello"}'') = Inr (PyDict [(u ''inputs'', PyStr (u ''hello''))])\<close>
  by (simp add: json_eval json_loads_def del: Suc_numeral)

lemma json_loads_hi:
  \<open>json_loads (u ''{"inputs": "hi"}'') = Inr (PyDict [(u ''inputs'', PyStr (u ''hi''))])\<close>
  by (simp add: json_eval json_loads_def del: Suc_numeral)

lemma json_loads_list:
  \<open>json_loads (u ''[1, 2]'') = Inr (PyList [PyInt 1, PyInt 2])\<close>
  by (simp add: json_eval json_loads_def del: Suc_numeral)

lemma utf8_decode_hi:
  \<open>utf8_decode_replace (map of_nat (u ''{"inputs": "hi"}'')) = u ''{"inputs": "hi"}''\<close>
  by (simp add: utf8_decode_replace_def u_def)

lemma parse_body_proxied:
  \<open>parse_body (PyDict [(u ''body'', PyStr (u ''{"inputs": "hello"}''))])
     = Inr (PyDict [(u ''inputs'', PyStr (u ''hello''))])\<close>
  by (simp add: parse_body_def json_loads_hello u_eq_iff)

lemma b64decode_hi:
  \<open>b64decode (u ''eyJpbnB1dHMiOiAiaGkifQ=='') = Inr (map of_nat (u ''{"inputs": "hi"}''))\<close>
  by (simp add: b64decode_def u_def table_a2b_base64_def)

lemma parse_body_base64:
  \<open>parse_body (PyDict [(u ''body'', PyStr (u ''eyJpbnB1dHMiOiAiaGkifQ=='')),
                        (u ''isBase64Encoded'', PyBool True)])
     = Inr (PyDict [(u ''inputs'', PyStr (u ''hi''))])\<close>
  by (simp add: parse_body_def b64decode_hi utf8_decode_hi json_loads_hi u_eq_iff)

lemma dict_get_inputs:
  "dict_get (PyDict [(u ''inputs'', v)]) (u ''inputs'') d = Inr v"
  by (simp add: dict_get_def u_eq_iff)

lemma parse_body_list:
  \<open>parse_body (PyDict [(u ''body'', PyStr (u ''[1, 2]''))]) = Inr (PyList [PyInt 1, PyInt 2])\<close>
  by (simp add: parse_body_def json_loads_list u_eq_iff)

lemma attribute_error_list:
  \<open>dict_get (PyList xs) k d
     = Inl (Exn AttributeError
              ([39] @ u ''list'' @ [39] @ u '' object has no attribute '' @ [39] @ u ''get'' @ [39]))\<close>
  by (simp add: dict_get_def u_eq_iff)

section \<open>The claims\<close>

text \<open>
  C8. Round trip of envelope normalisation. For the proxied envelope
  \<^verbatim>\<open>{"body": "{\"inputs\": \"hello\"}"}\<close>, \<^verbatim>\<open>_parse_body\<close> gives the mapping whose
  \<^verbatim>\<open>inputs\<close> is \<^verbatim>\<open>hello\<close>, and \<^verbatim>\<open>body.get("inputs", "")\<close> extracts \<^verbatim>\<open>hello\<close>. For
  the base64-proxied envelope, whose body \<^verbatim>\<open>eyJpbnB1dHMiOiAiaGkifQ==\<close> is the base64
  form of \<^verbatim>\<open>{"inputs": "hi"}\<close> and whose \<^verbatim>\<open>isBase64Encoded\<close> is \<^verbatim>\<open>True\<close>, extraction
  gives \<^verbatim>\<open>hi\<close>.
\<close>

theorem C8_envelope_round_trip:
  \<open>parse_body (PyDict [(u ''body'', PyStr (u ''{"inputs": "hello"}''))])
       = Inr (PyDict [(u ''inputs'', PyStr (u ''hello''))])
   \<and> dict_get (PyDict [(u ''inputs'', PyStr (u ''hello''))]) (u ''inputs'') (PyStr [])
       = Inr (PyStr (u ''hello''))
   \<and> b64decode (u ''eyJpbnB1dHMiOiAiaGkifQ=='') = Inr (map of_nat (u ''{"inputs": "hi"}''))
   \<and> parse_body (PyDict [(u ''body'', PyStr (u ''eyJpbnB1dHMiOiAiaGkifQ=='')),
                          (u ''isBase64Encoded'', PyBool True)])
       = Inr (PyDict [(u ''inputs'', PyStr (u ''hi''))])
   \<and> dict_get (PyDict [(u ''inputs'', PyStr (u ''hi''))]) (u ''inputs'') (PyStr [])
       = Inr (PyStr (u ''hi''))\<close>
  using parse_body_proxied b64decode_hi parse_body_base64 dict_get_inputs by simp

text \<open>
  C1. The claim: for every envelope the handler returns a response and never raises,
  unless the log-store write fails; in particular when the \<^verbatim>\<open>body\<close> is a string that
  parses as JSON whose value is not a mapping. The code does not do this: for the
  envelope \<^verbatim>\<open>{"body": "[1, 2]"}\<close>, \<^verbatim>\<open>_parse_body\<close> returns the list that
  \<^verbatim>\<open>json.loads\<close> gives, and \<^verbatim>\<open>body.get\<close> raises AttributeError, whatever the
  collaborators do, before any of them is called. \<^verbatim>\<open>_parse_body\<close> checks
  \<^verbatim>\<open>isinstance(raw, dict)\<close> for a body that is not a string and returns \<^verbatim>\<open>{}\<close>
  otherwise; the result of \<^verbatim>\<open>json.loads\<close> is returned without that check.
\<close>

theorem C1_list_body_raises:
  \<open>lambda_handler env tr (PyDict [(u ''body'', PyStr (u ''[1, 2]''))]) context
     = (Inl (Exn AttributeError
               ([39] @ u ''list'' @ [39] @ u '' object has no attribute '' @ [39] @ u ''get''
                @ [39])), tr)\<close>
  by (simp add: lambda_handler_def parse_body_list attribute_error_list)

theorem C1_list_body_raises_witness:
  \<open>lambda_handler env_ok [] (PyDict [(u ''body'', PyStr (u ''[1, 2]''))]) ctx1
     = (Inl (Exn AttributeError
               ([39] @ u ''list'' @ [39] @ u '' object has no attribute '' @ [39] @ u ''get''
                @ [39])), [])\<close>
  using C1_list_body_raises [of env_ok "[]" ctx1] by simp

lemma written_append: "written (a @ b) = written a @ written b"
  by (induction a rule: written.induct) simp_all

lemma forwarded_append: "forwarded (a @ b) = forwarded a @ forwarded b"
  by (induction a rule: forwarded.induct) simp_all

lemma strip_eq_Nil_iff: "strip s = [] \<longleftrightarrow> list_all isspace s"
proof
  assume "strip s = []"
  then have all: "\<forall>x\<in>set (dropWhile isspace s). isspace x"
    by (simp add: strip_def dropWhile_eq_Nil_conv)
  have "dropWhile isspace s = []"
  proof (rule ccontr)
    assume ne: "dropWhile isspace s \<noteq> []"
    then have "\<not> isspace (hd (dropWhile isspace s))"
      by (rule hd_dropWhile)
    moreover have "hd (dropWhile isspace s) \<in> set (dropWhile isspace s)"
      using ne by simp
    ultimately show False
      using all by blast
  qed
  then show "list_all isspace s"
    by (simp add: dropWhile_eq_Nil_conv list_all_iff)
next
  assume "list_all isspace s"
  then have "dropWhile isspace s = []"
    by (simp add: dropWhile_eq_Nil_conv list_all_iff)
  then show "strip s = []"
    by (auto simp: strip_def dest: set_dropWhileD)
qed

lemma parse_body_direct:
  "map_of kvs (u ''body'') = None \<Longrightarrow> parse_body (PyDict kvs) = Inr (PyDict kvs)"
  by (simp add: parse_body_def)

text \<open>
C6. For every envelope where the extracted \<^verbatim>\<open>inputs\<close> candidate is not a string, or
  is empty or whitespace-only after trimming, the handler returns HTTP 400 with the JSON
  body \<^verbatim>\<open>{"error": "Empty or missing 'inputs' received by Lambda", "raw_event_sample": s}\<close>,
  where \<^verbatim>\<open>s\<close> is the first 500 characters of \<^verbatim>\<open>str(event)\<close>; it leaves the trace as it
  found it, so no log record is written and no remote call is made.
\<close>

theorem C6_empty_inputs_rejected:
  assumes "parse_body event = Inr parsed"
    and "dict_get parsed (u ''inputs'') (PyStr []) = Inr candidate"
    and "\<not> isinstance_str candidate \<or> strip (str_value candidate) = []"
  shows "json_dumps True
           (PyDict [(u ''error'', PyStr (u ''Empty or missing 'inputs' received by Lambda'')),
                    (u ''raw_event_sample'', PyStr (take 500 (str_of env event)))])
         = Inr (iterencode True
            (PyDict [(u ''error'', PyStr (u ''Empty or missing 'inputs' received by Lambda'')),
                     (u ''raw_event_sample'', PyStr (take 500 (str_of env event)))]))
     \<and> lambda_handler env tr event context
         = (Inr \<lparr>statusCode = 400,
                  headers = [(u ''Content-Type'', u ''application/json'')],
                  body = iterencode True
                    (PyDict [(u ''error'',
                              PyStr (u ''Empty or missing 'inputs' received by Lambda'')),
                             (u ''raw_event_sample'', PyStr (take 500 (str_of env event)))])\<rparr>,
            tr)
     \<and> written (snd (lambda_handler env tr event context)) = written tr
     \<and> forwarded (snd (lambda_handler env tr event context)) = forwarded tr"
  using handler_invalid [OF assms]
  by (simp add: empty_inputs_def json_dumps_returns json_headers_def)

theorem C6_empty_inputs_rejected_witness:
  \<open>lambda_handler env_ok [] (PyDict [(u ''inputs'', PyStr (u ''   ''))]) ctx1
     = (Inr \<lparr>statusCode = 400,
              headers = [(u ''Content-Type'', u ''application/json'')],
              body = u ''{"error": "Empty or missing 'inputs' received by Lambda", "raw_event_sample": "<event>"}''\<rparr>,
        [])
   \<and> written (snd (lambda_handler env_ok [] (PyDict [(u ''inputs'', PyStr (u ''   ''))]) ctx1)) = []\<close>
proof -
  have 1: "parse_body (PyDict [(u ''inputs'', PyStr (u ''   ''))])
             = Inr (PyDict [(u ''inputs'', PyStr (u ''   ''))])"
    by (simp add: parse_body_direct u_eq_iff)
  have 2: "dict_get (PyDict [(u ''inputs'', PyStr (u ''   ''))]) (u ''inputs'') (PyStr [])
             = Inr (PyStr (u ''   ''))"
    by (simp add: dict_get_def)
  have 3: "\<not> isinstance_str (PyStr (u ''   '')) \<or> strip (str_value (PyStr (u ''   ''))) = []"
    by (simp add: str_value_def strip_eq_Nil_iff u_def isspace_def)
  have 4: "str_of env_ok v = u ''<event>''" for v
    by (simp add: env_ok_def)
  show ?thesis
    using C6_empty_inputs_rejected [OF 1 2 3, of env_ok "[]" ctx1]
    by (simp add: 4 u_def encode_basestring_def encode_char_def)
qed

lemma handler_run:
  fixes env tr event "context" parsed T
  assumes "parse_body event = Inr parsed"
    and "dict_get parsed (u ''inputs'') (PyStr []) = Inr (PyStr T)"
    and "strip T \<noteq> []"
  defines "item_id \<equiv> str_int (py_int (time env tr * 1000)) @ u ''#'' @ aws_request_id context"
    and "request \<equiv> \<lparr>EndpointName = ENDPOINT env, ContentType = u ''application/json'',
                        Accept = u ''application/json'',
                        Body = map of_nat (iterencode True (payload T))\<rparr>"
  defines "tr2 \<equiv> tr @ [Time, InvokeEndpoint request]"
    and "err_item \<equiv> \<lambda>e t.
           \<lparr>id_key = item_id, request_id = item_id, status = u ''error'',
            prompt = take 4000 T,
            response = iterencode False (PyDict [(u ''invoke_error'', PyStr (str_exn e))]),
            timestamp = py_int (time env t)\<rparr>"
  defines "ok_item \<equiv> \<lambda>raw.
           \<lparr>id_key = item_id, request_id = item_id, status = u ''ok'',
            prompt = take 4000 T,
            response = iterencode False (try_parse_json (utf8_decode_replace raw)),
            timestamp = py_int (time env tr2)\<rparr>"
    and "failed \<equiv> \<lambda>e t.
           (case put_item env (t @ [Time]) (err_item e t) of
              Some e' \<Rightarrow> (Inl e', t @ [Time, PutItem (err_item e t)])
            | None \<Rightarrow>
                (Inr \<lparr>statusCode = 502, headers = json_headers,
                      body = iterencode True (PyDict [(u ''error'', PyStr (str_exn e))])\<rparr>,
                 t @ [Time, PutItem (err_item e t)]))"
  shows "lambda_handler env tr event context =
     (case invoke_endpoint env (tr @ [Time]) request of
        Inl e \<Rightarrow> failed e tr2
      | Inr (Inl e) \<Rightarrow> failed e tr2
      | Inr (Inr raw) \<Rightarrow>
          (case put_item env (tr2 @ [Time]) (ok_item raw) of
             Some e \<Rightarrow> failed e (tr2 @ [Time, PutItem (ok_item raw)])
           | None \<Rightarrow>
               (Inr \<lparr>statusCode = 200, headers = json_headers,
                     body = iterencode True
                              (PyDict [(u ''result'', try_parse_json (utf8_decode_replace raw))])\<rparr>,
                tr2 @ [Time, PutItem (ok_item raw)])))"
  unfolding handler_valid [OF assms(1-3)] try_block_unfold except_block_unfold
    item_id_def request_def tr2_def err_item_def ok_item_def failed_def
  by (simp add: Let_def split: sum.splits option.splits)

text \<open>
C7. For every envelope where extraction yields a string \<open>T\<close> that is not empty after
  trimming, the handler forwards one request to the endpoint: \<^verbatim>\<open>EndpointName\<close> is the
  configured endpoint, content type and accept are \<^verbatim>\<open>application/json\<close>, and the body
  is the UTF-8 encoding of \<^verbatim>\<open>json.dumps(payload)\<close>, where \<^verbatim>\<open>payload\<close> has \<^verbatim>\<open>inputs\<close>
  equal to \<open>T\<close> itself, untrimmed, and the fixed parameters \<^verbatim>\<open>max_new_tokens = 128\<close>,
  \<^verbatim>\<open>temperature = 0.0\<close>, \<^verbatim>\<open>top_p = 0.9\<close>, \<^verbatim>\<open>do_sample = False\<close>,
  \<^verbatim>\<open>return_full_text = False\<close>. This holds whatever the endpoint and the table do
  afterwards.
\<close>

theorem C7_forwarded_request:
  assumes "parse_body event = Inr parsed"
    and "dict_get parsed (u ''inputs'') (PyStr []) = Inr (PyStr T)"
    and "strip T \<noteq> []"
  shows \<open>forwarded (snd (lambda_handler env tr event context))
           = forwarded tr
             @ [\<lparr>EndpointName = ENDPOINT env, ContentType = u ''application/json'',
                 Accept = u ''application/json'',
                 Body = map of_nat (iterencode True (payload T))\<rparr>]
     \<and> json_dumps True (payload T) = Inr (iterencode True (payload T))
     \<and> utf8_encode (iterencode True (payload T)) = Inr (map of_nat (iterencode True (payload T)))
     \<and> iterencode True (payload T)
         = u ''{"inputs": '' @ encode_basestring True T
           @ u '', "parameters": {"max_new_tokens": 128, "temperature": 0.0, "top_p": 0.9, "do_sample": false, "return_full_text": false}}''
     \<and> payload T
         = PyDict [(u ''inputs'', PyStr T),
                   (u ''parameters'',
                    PyDict [(u ''max_new_tokens'', PyInt 128),
                            (u ''temperature'', PyFloat (u ''0.0'')),
                            (u ''top_p'', PyFloat (u ''0.9'')),
                            (u ''do_sample'', PyBool False),
                            (u ''return_full_text'', PyBool False)])]\<close>
proof -
  have main: "forwarded (snd (lambda_handler env tr event context))
           = forwarded tr
             @ [\<lparr>EndpointName = ENDPOINT env, ContentType = u ''application/json'',
                 Accept = u ''application/json'',
                 Body = map of_nat (iterencode True (payload T))\<rparr>]"
    unfolding handler_run [OF assms]
    by (simp add: forwarded_append split: sum.splits option.splits)
  show ?thesis
    apply (intro conjI)
        apply (rule main)
       apply (rule json_dumps_returns)
      apply (rule encode_payload)
     apply (rule iterencode_payload)
    apply (rule payload_def)
    done
qed


theorem C7_forwarded_request_witness:
  \<open>forwarded (snd (lambda_handler env_ok [] (PyDict [(u ''inputs'', PyStr (u ''  hi ''))]) ctx1))
     = [\<lparr>EndpointName = u ''my-endpoint'', ContentType = u ''application/json'',
         Accept = u ''application/json'',
         Body = map of_nat (u ''{"inputs": "  hi ", "parameters": {"max_new_tokens": 128, "temperature": 0.0, "top_p": 0.9, "do_sample": false, "return_full_text": false}}'')\<rparr>]\<close>
proof -
  have 1: "parse_body (PyDict [(u ''inputs'', PyStr (u ''  hi ''))])
             = Inr (PyDict [(u ''inputs'', PyStr (u ''  hi ''))])"
    by (simp add: parse_body_direct u_eq_iff)
  have 2: "dict_get (PyDict [(u ''inputs'', PyStr (u ''  hi ''))]) (u ''inputs'') (PyStr [])
             = Inr (PyStr (u ''  hi ''))"
    by (simp add: dict_get_def)
  have 3: "strip (u ''  hi '') \<noteq> []"
    by (simp add: strip_eq_Nil_iff u_def isspace_def)
  have 4: "ENDPOINT env_ok = u ''my-endpoint''"
    by (simp add: env_ok_def)
  have 5: \<open>iterencode True (payload (u ''  hi ''))
             = u ''{"inputs": "  hi ", "parameters": {"max_new_tokens": 128, "temperature": 0.0, "top_p": 0.9, "do_sample": false, "return_full_text": false}}''\<close>
    by (simp add: iterencode_payload u_def encode_basestring_def encode_char_def)
  show ?thesis
    using C7_forwarded_request [OF 1 2 3, of env_ok "[]" ctx1, THEN conjunct1]
    by (simp only: 4 5 forwarded.simps append_Nil)
qed

text \<open>
C9. For every input text longer than 4000 characters that reaches the invocation step,
  every log record the handler writes (the record of the success path and the record of
  the error path alike) has as \<^verbatim>\<open>prompt\<close> exactly the first 4000 characters of the text,
  and at least one record is written; the request forwarded to the endpoint carries the
  payload whose \<^verbatim>\<open>inputs\<close> is the whole text.
\<close>

theorem C9_prompt_truncated:
  assumes "parse_body event = Inr parsed"
    and "dict_get parsed (u ''inputs'') (PyStr []) = Inr (PyStr T)"
    and "strip T \<noteq> []"
    and "4000 < length T"
  shows "(\<exists>items. written (snd (lambda_handler env tr event context)) = written tr @ items
            \<and> items \<noteq> []
            \<and> list_all (\<lambda>i. prompt i = take 4000 T \<and> length (prompt i) = 4000) items)
     \<and> forwarded (snd (lambda_handler env tr event context))
           = forwarded tr
             @ [\<lparr>EndpointName = ENDPOINT env, ContentType = u ''application/json'',
                 Accept = u ''application/json'',
                 Body = map of_nat (iterencode True (payload T))\<rparr>]
     \<and> dict_get (payload T) (u ''inputs'') PyNone = Inr (PyStr T)"
proof (intro conjI)
  show "\<exists>items. written (snd (lambda_handler env tr event context)) = written tr @ items
            \<and> items \<noteq> []
            \<and> list_all (\<lambda>i. prompt i = take 4000 T \<and> length (prompt i) = 4000) items"
    unfolding handler_run [OF assms(1-3)]
    using assms(4)
    by (simp add: written_append split: sum.splits option.splits)
  show "forwarded (snd (lambda_handler env tr event context))
           = forwarded tr
             @ [\<lparr>EndpointName = ENDPOINT env, ContentType = u ''application/json'',
                 Accept = u ''application/json'',
                 Body = map of_nat (iterencode True (payload T))\<rparr>]"
    unfolding handler_run [OF assms(1-3)]
    by (simp add: forwarded_append split: sum.splits option.splits)
  show "dict_get (payload T) (u ''inputs'') PyNone = Inr (PyStr T)"
    by (simp add: payload_def dict_get_def)
qed

theorem C9_prompt_truncated_witness:
  "(\<exists>items. written (snd (lambda_handler env_ok []
                  (PyDict [(u ''inputs'', PyStr (replicate 5000 (ord CHR ''a'')))]) ctx1)) = items
       \<and> items \<noteq> []
       \<and> list_all (\<lambda>i. prompt i = replicate 4000 (ord CHR ''a'')
                          \<and> length (prompt i) = 4000) items)
   \<and> dict_get (payload (replicate 5000 (ord CHR ''a''))) (u ''inputs'') PyNone
       = Inr (PyStr (replicate 5000 (ord CHR ''a'')))"
proof -
  have 1: "parse_body (PyDict [(u ''inputs'', PyStr (replicate 5000 (ord CHR ''a'')))])
             = Inr (PyDict [(u ''inputs'', PyStr (replicate 5000 (ord CHR ''a'')))])"
    by (simp add: parse_body_direct u_eq_iff)
  have 2: "dict_get (PyDict [(u ''inputs'', PyStr (replicate 5000 (ord CHR ''a'')))])
             (u ''inputs'') (PyStr [])
             = Inr (PyStr (replicate 5000 (ord CHR ''a'')))"
    by (simp add: dict_get_def)
  have 3: "strip (replicate 5000 (ord CHR ''a'')) \<noteq> []"
    by (simp add: strip_eq_Nil_iff list_all_iff isspace_def)
  have 4: "4000 < length (replicate 5000 (ord CHR ''a''))"
    by simp
  have 5: "take 4000 (replicate 5000 (ord CHR ''a'')) = replicate 4000 (ord CHR ''a'')"
    by simp
  note run = C9_prompt_truncated [OF 1 2 3 4, of env_ok "[]" ctx1]
  show ?thesis
    using run [THEN conjunct1] run [THEN conjunct2, THEN conjunct2]
    by (simp only: 5 written.simps append_Nil simp_thms)
qed

text \<open>
C10. Base64 decoding of a string \<^verbatim>\<open>body\<close> is applied only when \<^verbatim>\<open>isBase64Encoded\<close>
  is the boolean \<^verbatim>\<open>True\<close>. For any other value (absent, the string \<^verbatim>\<open>"true"\<close>, the
  integer \<^verbatim>\<open>1\<close>) the decode step is skipped and the body string is parsed as JSON
  directly; when it is \<^verbatim>\<open>True\<close> the body is decoded first and the decoded text is
  parsed.
\<close>

theorem C10_base64_only_when_True:
  assumes "map_of kvs (u ''body'') = Some (PyStr raw)"
  shows "(map_of kvs (u ''isBase64Encoded'') \<noteq> Some (PyBool True) \<longrightarrow>
            parse_body (PyDict kvs)
              = (case json_loads raw of
                   Inr v \<Rightarrow> Inr v
                 | Inl e \<Rightarrow> if exc_class e = JSONDecodeError then Inr (PyDict []) else Inl e))
     \<and> (map_of kvs (u ''isBase64Encoded'') = Some (PyBool True) \<longrightarrow>
            parse_body (PyDict kvs)
              = (case b64decode raw of
                   Inl e \<Rightarrow> Inr (PyDict [])
                 | Inr decoded \<Rightarrow>
                     (case json_loads (utf8_decode_replace decoded) of
                        Inr v \<Rightarrow> Inr v
                      | Inl e \<Rightarrow>
                          if exc_class e = JSONDecodeError then Inr (PyDict []) else Inl e)))"
  using assms by (simp add: parse_body_def split: sum.splits)

theorem C10_base64_only_when_True_witness:
  \<open>parse_body (PyDict [(u ''body'', PyStr (u ''{"inputs": "hi"}'')),
                        (u ''isBase64Encoded'', PyStr (u ''true''))])
     = Inr (PyDict [(u ''inputs'', PyStr (u ''hi''))])
   \<and> parse_body (PyDict [(u ''body'', PyStr (u ''{"inputs": "hi"}'')),
                          (u ''isBase64Encoded'', PyInt 1)])
     = Inr (PyDict [(u ''inputs'', PyStr (u ''hi''))])
   \<and> parse_body (PyDict [(u ''body'', PyStr (u ''eyJpbnB1dHMiOiAiaGkifQ=='')),
                          (u ''isBase64Encoded'', PyBool True)])
     = Inr (PyDict [(u ''inputs'', PyStr (u ''hi''))])\<close>
proof -
  have a: \<open>map_of [(u ''body'', PyStr (u ''{"inputs": "hi"}'')), (u ''isBase64Encoded'', v)]
             (u ''body'') = Some (PyStr (u ''{"inputs": "hi"}''))\<close> for v
    by simp
  have c: \<open>map_of [(u ''body'', PyStr (u ''eyJpbnB1dHMiOiAiaGkifQ=='')),
                    (u ''isBase64Encoded'', PyBool True)] (u ''body'')
             = Some (PyStr (u ''eyJpbnB1dHMiOiAiaGkifQ==''))\<close>
    by simp
  show ?thesis
    using C10_base64_only_when_True [OF a [of "PyStr (u ''true'')"]]
      C10_base64_only_when_True [OF a [of "PyInt 1"]]
      C10_base64_only_when_True [OF c]
    by (simp add: u_eq_iff json_loads_hi b64decode_hi utf8_decode_hi)
qed

section \<open>Four runs on the event \<^verbatim>\<open>{"inputs": "hi"}\<close>\<close>

lemma parse_hi: "parse_body ev_hi = Inr ev_hi"
  by (simp add: ev_hi_def parse_body_direct u_eq_iff)

lemma get_hi: "dict_get ev_hi (u ''inputs'') (PyStr []) = Inr (PyStr (u ''hi''))"
  by (simp add: ev_hi_def dict_get_def)

lemma strip_hi: "strip (u ''hi'') \<noteq> []"
  by (simp add: strip_eq_Nil_iff u_def isspace_def)

lemma payload_hi:
  \<open>iterencode True (payload (u ''hi''))
     = u ''{"inputs": "hi", "parameters": {"max_new_tokens": 128, "temperature": 0.0, "top_p": 0.9, "do_sample": false, "return_full_text": false}}''\<close>
  by (simp add: iterencode_payload u_def encode_basestring_def encode_char_def)

lemma item_id_hi: "str_int (py_int 1000) @ u ''#'' @ aws_request_id ctx1 = u ''1000#req-1''"
  by (simp add: str_int_def py_int_def digits.simps ctx1_def u_def)

lemma py_int_one: "py_int 1 = 1"
  by (simp add: py_int_def)

lemma take_hi: "take 4000 (u ''hi'') = u ''hi''"
  by (simp add: u_def)

lemma result_x:
  \<open>try_parse_json (utf8_decode_replace (map of_nat (u ''{"generated_text":"x"}'')))
     = PyDict [(u ''generated_text'', PyStr (u ''x''))]\<close>
proof -
  have \<open>utf8_decode_replace (map of_nat (u ''{"generated_text":"x"}'')) = u ''{"generated_text":"x"}''\<close>
    by (simp add: utf8_decode_replace_def u_def)
  moreover have \<open>json_loads (u ''{"generated_text":"x"}'')
      = Inr (PyDict [(u ''generated_text'', PyStr (u ''x''))])\<close>
    by (simp add: json_eval json_loads_def del: Suc_numeral)
  ultimately show ?thesis
    by (simp add: try_parse_json_def)
qed

lemma dumps_x:
  \<open>iterencode a (PyDict [(u ''generated_text'', PyStr (u ''x''))]) = u ''{"generated_text": "x"}''\<close>
  by (simp add: u_def encode_basestring_def encode_char_def)

lemma dumps_result_x:
  \<open>iterencode True (PyDict [(u ''result'', PyDict [(u ''generated_text'', PyStr (u ''x''))])])
     = u ''{"result": {"generated_text": "x"}}''\<close>
  by (simp add: u_def encode_basestring_def encode_char_def)

lemma dumps_invoke_error_boom:
  \<open>iterencode False (PyDict [(u ''invoke_error'', PyStr (str_exn boom))])
     = u ''{"invoke_error": "boom"}''\<close>
  by (simp add: boom_def u_def encode_basestring_def encode_char_def)

lemma dumps_error_boom:
  \<open>iterencode True (PyDict [(u ''error'', PyStr (str_exn boom))]) = u ''{"error": "boom"}''\<close>
  by (simp add: boom_def u_def encode_basestring_def encode_char_def)

lemma dumps_invoke_error_table:
  \<open>iterencode False (PyDict [(u ''invoke_error'', PyStr (str_exn table_error))])
     = u ''{"invoke_error": "table unavailable"}''\<close>
  by (simp add: table_error_def u_def encode_basestring_def encode_char_def)

lemma dumps_error_table:
  \<open>iterencode True (PyDict [(u ''error'', PyStr (str_exn table_error))])
     = u ''{"error": "table unavailable"}''\<close>
  by (simp add: table_error_def u_def encode_basestring_def encode_char_def)

lemmas run_hi = handler_run [OF parse_hi get_hi strip_hi, of _ "[]" ctx1]

lemmas eval_hi = payload_hi item_id_hi py_int_one take_hi result_x dumps_x dumps_result_x
  dumps_invoke_error_boom dumps_error_boom dumps_invoke_error_table dumps_error_table
  request_hi_def [symmetric] ok_item_hi_def [symmetric] error_item_hi_def [symmetric]

lemma run_ok:
  \<open>lambda_handler env_ok [] ev_hi ctx1
     = (Inr \<lparr>statusCode = 200, headers = json_headers,
              body = u ''{"result": {"generated_text": "x"}}''\<rparr>,
        [Time, InvokeEndpoint request_hi, Time, PutItem ok_item_hi])\<close>
  unfolding run_hi by (simp add: env_ok_def eval_hi del: iterencode.simps)

lemma run_boom:
  \<open>lambda_handler env_boom [] ev_hi ctx1
     = (Inr \<lparr>statusCode = 502, headers = json_headers, body = u ''{"error": "boom"}''\<rparr>,
        [Time, InvokeEndpoint request_hi, Time,
         PutItem (error_item_hi (u ''{"invoke_error": "boom"}''))])\<close>
  unfolding run_hi by (simp add: env_boom_def env_ok_def eval_hi del: iterencode.simps)

lemma run_flaky:
  \<open>lambda_handler env_flaky [] ev_hi ctx1
     = (Inr \<lparr>statusCode = 502, headers = json_headers,
              body = u ''{"error": "table unavailable"}''\<rparr>,
        [Time, InvokeEndpoint request_hi, Time, PutItem ok_item_hi, Time,
         PutItem (error_item_hi (u ''{"invoke_error": "table unavailable"}''))])\<close>
  unfolding run_hi by (simp add: env_flaky_def env_ok_def eval_hi del: iterencode.simps)

lemma run_down:
  \<open>lambda_handler env_down [] ev_hi ctx1
     = (Inl table_error,
        [Time, InvokeEndpoint request_hi, Time,
         PutItem (error_item_hi (u ''{"invoke_error": "boom"}''))])\<close>
  unfolding run_hi by (simp add: env_down_def env_boom_def env_ok_def eval_hi del: iterencode.simps)





text \<open>
C5, as the claim states it, says that whenever the remote call raises the handler writes
  one record with status \<^verbatim>\<open>error\<close> and returns HTTP 502. Nothing guards the write in the
  \<^verbatim>\<open>except\<close> clause: in \<open>env_down\<close> the endpoint raises \<^verbatim>\<open>boom\<close>, the table refuses
  the item, and the table's exception leaves the handler; no response is returned.
\<close>

theorem C5_counterexample:
  \<open>invoke_endpoint env_down [Time] request_hi = Inl boom
   \<and> fst (lambda_handler env_down [] ev_hi ctx1) = Inl table_error\<close>
proof (intro conjI)
  show "invoke_endpoint env_down [Time] request_hi = Inl boom"
    by (simp add: env_down_def env_boom_def env_ok_def)
  show "fst (lambda_handler env_down [] ev_hi ctx1) = Inl table_error"
    by (simp add: run_down)
qed

text \<open>
C5, amended. For every invocation where calling the endpoint or reading its response
  raises an exception \<open>e\<close>, and the write of the log record does not raise: the handler
  writes one log record with status \<^verbatim>\<open>error\<close> whose \<^verbatim>\<open>response\<close> is the JSON
  serialisation of \<^verbatim>\<open>{"invoke_error": str(e)}\<close>, and returns HTTP 502 with the JSON body
  \<^verbatim>\<open>{"error": str(e)}\<close>. (Decoding with \<^verbatim>\<open>errors="replace"\<close> and \<^verbatim>\<open>try_parse_json\<close> do
  not raise.)
\<close>

theorem C5_error_path:
  fixes env tr event "context" parsed T e
  assumes "parse_body event = Inr parsed"
    and "dict_get parsed (u ''inputs'') (PyStr []) = Inr (PyStr T)"
    and "strip T \<noteq> []"
  defines "request \<equiv> \<lparr>EndpointName = ENDPOINT env, ContentType = u ''application/json'',
                        Accept = u ''application/json'',
                        Body = map of_nat (iterencode True (payload T))\<rparr>"
  defines "item \<equiv>
           \<lparr>id_key = str_int (py_int (time env tr * 1000)) @ u ''#'' @ aws_request_id context,
            request_id = str_int (py_int (time env tr * 1000)) @ u ''#''
                           @ aws_request_id context,
            status = u ''error'',
            prompt = take 4000 T,
            response = iterencode False (PyDict [(u ''invoke_error'', PyStr (str_exn e))]),
            timestamp = py_int (time env (tr @ [Time, InvokeEndpoint request]))\<rparr>"
  assumes "invoke_endpoint env (tr @ [Time]) request = Inl e
           \<or> invoke_endpoint env (tr @ [Time]) request = Inr (Inl e)"
    and "put_item env (tr @ [Time, InvokeEndpoint request, Time]) item = None"
  shows "lambda_handler env tr event context
           = (Inr \<lparr>statusCode = 502,
                    headers = [(u ''Content-Type'', u ''application/json'')],
                    body = iterencode True (PyDict [(u ''error'', PyStr (str_exn e))])\<rparr>,
              tr @ [Time, InvokeEndpoint request, Time, PutItem item])
     \<and> written (snd (lambda_handler env tr event context)) = written tr @ [item]
     \<and> json_dumps False (PyDict [(u ''invoke_error'', PyStr (str_exn e))])
         = Inr (response item)
     \<and> json_dumps True (PyDict [(u ''error'', PyStr (str_exn e))])
         = Inr (iterencode True (PyDict [(u ''error'', PyStr (str_exn e))]))"
proof -
  have run: "lambda_handler env tr event context
           = (Inr \<lparr>statusCode = 502,
                    headers = [(u ''Content-Type'', u ''application/json'')],
                    body = iterencode True (PyDict [(u ''error'', PyStr (str_exn e))])\<rparr>,
              tr @ [Time, InvokeEndpoint request, Time, PutItem item])"
    unfolding handler_run [OF assms(1-3)]
    using assms(6,7)
    by (auto simp: request_def item_def json_headers_def)
  show ?thesis
    unfolding run
    by (simp add: written_append json_dumps_returns item_def)
qed

theorem C5_error_path_witness:
  \<open>lambda_handler env_boom [] ev_hi ctx1
     = (Inr \<lparr>statusCode = 502,
              headers = [(u ''Content-Type'', u ''application/json'')],
              body = u ''{"error": "boom"}''\<rparr>,
        [Time, InvokeEndpoint request_hi, Time,
         PutItem (error_item_hi (u ''{"invoke_error": "boom"}''))])
   \<and> written (snd (lambda_handler env_boom [] ev_hi ctx1))
       = [error_item_hi (u ''{"invoke_error": "boom"}'')]
   \<and> status (error_item_hi (u ''{"invoke_error": "boom"}'')) = u ''error''\<close>
proof -
  have i: "invoke_endpoint env_boom ([] @ [Time])
             \<lparr>EndpointName = ENDPOINT env_boom, ContentType = u ''application/json'',
              Accept = u ''application/json'',
              Body = map of_nat (iterencode True (payload (u ''hi'')))\<rparr> = Inl boom
           \<or> invoke_endpoint env_boom ([] @ [Time])
             \<lparr>EndpointName = ENDPOINT env_boom, ContentType = u ''application/json'',
              Accept = u ''application/json'',
              Body = map of_nat (iterencode True (payload (u ''hi'')))\<rparr> = Inr (Inl boom)"
    by (simp add: env_boom_def)
  have p: "put_item env_boom tr' i' = None" for tr' i'
    by (simp add: env_boom_def env_ok_def)
  note th = C5_error_path [OF parse_hi get_hi strip_hi i p, of ctx1]
  show ?thesis
    using th [THEN conjunct1] th [THEN conjunct2, THEN conjunct1]
    by (simp add: env_boom_def env_ok_def eval_hi del: iterencode.simps)
       (simp add: error_item_hi_def)
qed

text \<open>
C2, as the claim states it, says that a failure raised by \<^verbatim>\<open>put_item\<close> is never caught
  and never turned into a response, on the success path as on the error path. On the
  success path the call is inside the \<^verbatim>\<open>try\<close>: in \<open>env_flaky\<close> the write of the record
  with status \<^verbatim>\<open>ok\<close> raises, \<^verbatim>\<open>except Exception\<close> catches it, a second record is
  written, and the handler returns HTTP 502 with the table's error text as its body.
\<close>

theorem C2_counterexample:
  \<open>put_item env_flaky [Time, InvokeEndpoint request_hi, Time] ok_item_hi = Some table_error
   \<and> lambda_handler env_flaky [] ev_hi ctx1
     = (Inr \<lparr>statusCode = 502, headers = json_headers,
              body = u ''{"error": "table unavailable"}''\<rparr>,
        [Time, InvokeEndpoint request_hi, Time, PutItem ok_item_hi, Time,
         PutItem (error_item_hi (u ''{"invoke_error": "table unavailable"}''))])\<close>
proof (intro conjI)
  show "put_item env_flaky [Time, InvokeEndpoint request_hi, Time] ok_item_hi = Some table_error"
    by (simp add: env_flaky_def)
  show \<open>lambda_handler env_flaky [] ev_hi ctx1
     = (Inr \<lparr>statusCode = 502, headers = json_headers,
              body = u ''{"error": "table unavailable"}''\<rparr>,
        [Time, InvokeEndpoint request_hi, Time, PutItem ok_item_hi, Time,
         PutItem (error_item_hi (u ''{"invoke_error": "table unavailable"}''))])\<close>
    by (rule run_flaky)
qed

text \<open>
C2, amended. A failure raised by the write in the \<^verbatim>\<open>except\<close> clause (the record with
  status \<^verbatim>\<open>error\<close>) is not caught: it leaves the handler, and no response is returned. A
  failure \<open>e\<close> raised by the write of the record with status \<^verbatim>\<open>ok\<close> is caught by the
  handler's own \<^verbatim>\<open>except\<close> clause, like a failure of the invocation: the handler writes a
  record with status \<^verbatim>\<open>error\<close> for \<open>e\<close>; when that second write raises too, its
  exception leaves the handler, and when it succeeds the handler returns HTTP 502 with the
  body \<^verbatim>\<open>{"error": str(e)}\<close>.
\<close>

theorem C2_write_failure:
  fixes env tr event "context" parsed T e e' raw
  assumes "parse_body event = Inr parsed"
    and "dict_get parsed (u ''inputs'') (PyStr []) = Inr (PyStr T)"
    and "strip T \<noteq> []"
  defines "item_id \<equiv> str_int (py_int (time env tr * 1000)) @ u ''#'' @ aws_request_id context"
    and "request \<equiv> \<lparr>EndpointName = ENDPOINT env, ContentType = u ''application/json'',
                        Accept = u ''application/json'',
                        Body = map of_nat (iterencode True (payload T))\<rparr>"
  defines "tr2 \<equiv> tr @ [Time, InvokeEndpoint request]"
    and "error_item \<equiv> \<lambda>x t.
           \<lparr>id_key = item_id, request_id = item_id, status = u ''error'',
            prompt = take 4000 T,
            response = iterencode False (PyDict [(u ''invoke_error'', PyStr (str_exn x))]),
            timestamp = py_int (time env t)\<rparr>"
  defines "ok_item \<equiv>
           \<lparr>id_key = item_id, request_id = item_id, status = u ''ok'',
            prompt = take 4000 T,
            response = iterencode False (try_parse_json (utf8_decode_replace raw)),
            timestamp = py_int (time env tr2)\<rparr>"
  defines "tr4 \<equiv> tr2 @ [Time, PutItem ok_item]"
  shows "((invoke_endpoint env (tr @ [Time]) request = Inl e
           \<or> invoke_endpoint env (tr @ [Time]) request = Inr (Inl e))
          \<and> put_item env (tr2 @ [Time]) (error_item e tr2) = Some e'
          \<longrightarrow> fst (lambda_handler env tr event context) = Inl e')
     \<and> (invoke_endpoint env (tr @ [Time]) request = Inr (Inr raw)
          \<and> put_item env (tr2 @ [Time]) ok_item = Some e
          \<longrightarrow> (put_item env (tr4 @ [Time]) (error_item e tr4) = Some e'
                 \<longrightarrow> fst (lambda_handler env tr event context) = Inl e')
              \<and> (put_item env (tr4 @ [Time]) (error_item e tr4) = None
                 \<longrightarrow> lambda_handler env tr event context
                       = (Inr \<lparr>statusCode = 502,
                                headers = [(u ''Content-Type'', u ''application/json'')],
                                body = iterencode True
                                         (PyDict [(u ''error'', PyStr (str_exn e))])\<rparr>,
                          tr4 @ [Time, PutItem (error_item e tr4)])))"
  unfolding handler_run [OF assms(1-3)] item_id_def request_def tr2_def error_item_def
    ok_item_def tr4_def
  by (auto simp: json_headers_def)


theorem C2_write_failure_witness:
  \<open>fst (lambda_handler env_down [] ev_hi ctx1) = Inl table_error
   \<and> fst (lambda_handler env_refusing [] ev_hi ctx1) = Inl table_error
   \<and> fst (lambda_handler env_flaky [] ev_hi ctx1)
       = Inr \<lparr>statusCode = 502,
               headers = [(u ''Content-Type'', u ''application/json'')],
               body = u ''{"error": "table unavailable"}''\<rparr>\<close>
proof (intro conjI)
  note th = C2_write_failure [OF parse_hi get_hi strip_hi]
  show "fst (lambda_handler env_down [] ev_hi ctx1) = Inl table_error"
    using th [where env = env_down and tr = "[]" and e = boom and e' = table_error,
        THEN conjunct1]
    by (simp add: env_down_def env_boom_def)
  show "fst (lambda_handler env_refusing [] ev_hi ctx1) = Inl table_error"
    using th [where env = env_refusing and tr = "[]" and e = table_error
        and e' = table_error, THEN conjunct2]
    by (simp add: env_refusing_def env_ok_def)
  show \<open>fst (lambda_handler env_flaky [] ev_hi ctx1)
       = Inr \<lparr>statusCode = 502,
               headers = [(u ''Content-Type'', u ''application/json'')],
               body = u ''{"error": "table unavailable"}''\<rparr>\<close>
    using th [where env = env_flaky and tr = "[]" and e = table_error
        and e' = table_error, THEN conjunct2]
    by (simp add: env_flaky_def env_ok_def dumps_error_table del: iterencode.simps)
qed

text \<open>
C3, as the claim states it, says that an invocation that passes validation issues
  exactly one write. In \<open>env_flaky\<close> the event \<^verbatim>\<open>{"inputs": "hi"}\<close> passes validation and
  two writes are issued: the record with status \<^verbatim>\<open>ok\<close>, whose write raises, and then the
  record with status \<^verbatim>\<open>error\<close>.
\<close>

theorem C3_counterexample:
  \<open>parse_body ev_hi = Inr ev_hi
   \<and> dict_get ev_hi (u ''inputs'') (PyStr []) = Inr (PyStr (u ''hi''))
   \<and> strip (u ''hi'') = u ''hi''
   \<and> written (snd (lambda_handler env_flaky [] ev_hi ctx1))
       = [ok_item_hi, error_item_hi (u ''{"invoke_error": "table unavailable"}'')]\<close>
proof (intro conjI)
  show "parse_body ev_hi = Inr ev_hi"
    by (rule parse_hi)
  show "dict_get ev_hi (u ''inputs'') (PyStr []) = Inr (PyStr (u ''hi''))"
    by (rule get_hi)
  show "strip (u ''hi'') = u ''hi''"
    by (simp add: strip_def u_def isspace_def)
  show \<open>written (snd (lambda_handler env_flaky [] ev_hi ctx1))
       = [ok_item_hi, error_item_hi (u ''{"invoke_error": "table unavailable"}'')]\<close>
    by (simp add: run_flaky)
qed

text \<open>
C3, amended. An invocation that fails validation issues no write. An invocation that
  passes validation issues one write (the record with status \<^verbatim>\<open>ok\<close> when the endpoint
  answers, the record with status \<^verbatim>\<open>error\<close> when calling it or reading its response
  raises), and a second one, the record with status \<^verbatim>\<open>error\<close>, exactly when the write of
  the record with status \<^verbatim>\<open>ok\<close> raises.
\<close>

theorem C3_writes_issued:
  fixes env tr event "context" parsed candidate
  assumes "parse_body event = Inr parsed"
    and "dict_get parsed (u ''inputs'') (PyStr []) = Inr candidate"
  defines "T \<equiv> str_value candidate"
  defines "item_id \<equiv> str_int (py_int (time env tr * 1000)) @ u ''#'' @ aws_request_id context"
    and "request \<equiv> \<lparr>EndpointName = ENDPOINT env, ContentType = u ''application/json'',
                        Accept = u ''application/json'',
                        Body = map of_nat (iterencode True (payload T))\<rparr>"
  defines "ok_item \<equiv> \<lambda>raw.
           \<lparr>id_key = item_id, request_id = item_id, status = u ''ok'',
            prompt = take 4000 T,
            response = iterencode False (try_parse_json (utf8_decode_replace raw)),
            timestamp = py_int (time env (tr @ [Time, InvokeEndpoint request]))\<rparr>"
  shows "(\<not> isinstance_str candidate \<or> strip T = []
          \<longrightarrow> written (snd (lambda_handler env tr event context)) = written tr)
     \<and> (isinstance_str candidate \<and> strip T \<noteq> []
          \<longrightarrow> (\<exists>items. written (snd (lambda_handler env tr event context)) = written tr @ items
                \<and> (case invoke_endpoint env (tr @ [Time]) request of
                      Inr (Inr raw) \<Rightarrow>
                        if put_item env (tr @ [Time, InvokeEndpoint request, Time]) (ok_item raw)
                             = None
                        then map status items = [u ''ok'']
                        else map status items = [u ''ok'', u ''error'']
                    | _ \<Rightarrow> map status items = [u ''error''])))"
proof (intro conjI impI)
  assume "\<not> isinstance_str candidate \<or> strip T = []"
  then show "written (snd (lambda_handler env tr event context)) = written tr"
    unfolding T_def using handler_invalid [OF assms(1,2)] by simp
next
  assume valid: "isinstance_str candidate \<and> strip T \<noteq> []"
  then have c: "candidate = PyStr T"
    by (cases candidate) (simp_all add: isinstance_str_def T_def str_value_def)
  from valid have ne: "strip T \<noteq> []"
    by simp
  show "\<exists>items. written (snd (lambda_handler env tr event context)) = written tr @ items
          \<and> (case invoke_endpoint env (tr @ [Time]) request of
                Inr (Inr raw) \<Rightarrow>
                  if put_item env (tr @ [Time, InvokeEndpoint request, Time]) (ok_item raw)
                       = None
                  then map status items = [u ''ok'']
                  else map status items = [u ''ok'', u ''error'']
              | _ \<Rightarrow> map status items = [u ''error''])"
    unfolding handler_run [OF assms(1) assms(2) [unfolded c] ne] request_def ok_item_def
      item_id_def
    by (simp add: written_append split: sum.splits option.splits)
qed


theorem C3_writes_issued_witness:
  \<open>written (snd (lambda_handler env_ok [] (PyDict [(u ''inputs'', PyStr (u ''   ''))]) ctx1)) = []
   \<and> map status (written (snd (lambda_handler env_ok [] ev_hi ctx1))) = [u ''ok'']
   \<and> map status (written (snd (lambda_handler env_boom [] ev_hi ctx1))) = [u ''error'']
   \<and> map status (written (snd (lambda_handler env_flaky [] ev_hi ctx1)))
       = [u ''ok'', u ''error'']\<close>
proof (intro conjI)
  have 1: "parse_body (PyDict [(u ''inputs'', PyStr (u ''   ''))])
             = Inr (PyDict [(u ''inputs'', PyStr (u ''   ''))])"
    by (simp add: parse_body_direct u_eq_iff)
  have 2: "dict_get (PyDict [(u ''inputs'', PyStr (u ''   ''))]) (u ''inputs'') (PyStr [])
             = Inr (PyStr (u ''   ''))"
    by (simp add: dict_get_def)
  have 3: "strip (u ''   '') = []"
    by (simp add: strip_eq_Nil_iff u_def isspace_def)
  have v: "isinstance_str (PyStr (u ''hi'')) \<and> strip (str_value (PyStr (u ''hi''))) \<noteq> []"
    using strip_hi by (simp add: isinstance_str_def str_value_def)
  note hi = C3_writes_issued [OF parse_hi get_hi, THEN conjunct2, rule_format, OF v]
  show "written (snd (lambda_handler env_ok [] (PyDict [(u ''inputs'', PyStr (u ''   ''))]) ctx1))
          = []"
    using C3_writes_issued [OF 1 2, of env_ok "[]" ctx1, THEN conjunct1] 3
    by (simp add: str_value_def)
  show "map status (written (snd (lambda_handler env_ok [] ev_hi ctx1))) = [u ''ok'']"
    using hi [of env_ok "[]" ctx1] by (auto simp: env_ok_def)
  show "map status (written (snd (lambda_handler env_boom [] ev_hi ctx1))) = [u ''error'']"
    using hi [of env_boom "[]" ctx1] by (auto simp: env_boom_def)
  show "map status (written (snd (lambda_handler env_flaky [] ev_hi ctx1)))
          = [u ''ok'', u ''error'']"
    using hi [of env_flaky "[]" ctx1] by (auto simp: env_flaky_def env_ok_def)
qed

section \<open>The scanner has fuel enough\<close>

lemma decode_error_class: "exc_class (decode_error m) = JSONDecodeError"
  by (simp add: decode_error_def)

lemma skip_ws_le: "length (skip_ws s) \<le> length s"
  by (simp add: skip_ws_def length_dropWhile_le)

lemma skip_ws_Cons_less: "skip_ws s = d # ds \<Longrightarrow> length ds < length s"
  using skip_ws_le [of s] by simp

lemma scanstring_shorter:
  "scanstring acc s = Inr (str, rest) \<Longrightarrow> length rest < length s"
proof (induction acc s arbitrary: str rest rule: scanstring.induct)
  case (1 acc)
  then show ?case by simp
next
  case (2 acc c cs)
  from "2.prems" show ?case
    apply (simp split: if_splits list.splits option.splits)
    using "2.IH" by (fastforce dest!: "2.IH")+
qed

lemma scanstring_class:
  "scanstring acc s = Inl e \<Longrightarrow> exc_class e = JSONDecodeError"
proof (induction acc s rule: scanstring.induct)
  case (1 acc)
  then show ?case by (auto simp: decode_error_class)
next
  case (2 acc c cs)
  from "2.prems" show ?case
    apply (simp split: if_splits list.splits option.splits)
    using "2.IH" by (auto simp: decode_error_class)
qed

lemma digits_rest_le: "length (dropWhile is_digit xs) \<le> length xs"
  by (rule length_dropWhile_le)

lemma match_integer_shorter:
  "match_integer s = Some (i, r) \<Longrightarrow> length r < length s"
  unfolding match_integer_def
  by (auto simp: less_Suc_eq_le digits_rest_le intro: le_SucI split: list.splits if_splits)

lemma match_frac_le: "match_frac s = (f, r) \<Longrightarrow> length r \<le> length s"
  unfolding match_frac_def
  by (auto simp: digits_rest_le intro: le_SucI split: list.splits if_splits)

lemma match_exp_le: "match_exp s = (x, r) \<Longrightarrow> length r \<le> length s"
  unfolding match_exp_def
  by (auto simp: digits_rest_le le_SucI [OF le_SucI [OF digits_rest_le]] intro: le_SucI
      split: list.splits if_splits)

lemma match_number_shorter:
  assumes "match_number s = Some (v, rest)"
  shows "length rest < length s"
proof -
  from assms obtain integer s2 where i: "match_integer s = Some (integer, s2)"
    by (auto simp: match_number_def split: option.splits)
  obtain frac s3 where f: "match_frac s2 = (frac, s3)"
    by (cases "match_frac s2")
  obtain ex s4 where x: "match_exp s3 = (ex, s4)"
    by (cases "match_exp s3")
  from assms i f x have "rest = s4"
    by (auto simp: match_number_def split: if_splits)
  with match_integer_shorter [OF i] match_frac_le [OF f] match_exp_le [OF x]
  show ?thesis by simp
qed

end
